theory Spec2Isabelle
  imports Main "HOL-Library.Word" "HOL-Library.Multiset"
begin

section \<open>The VideoToolbox hardware-decoding interop of \<^verbatim>\<open>video/out/opengl/hwdec_osx.c\<close>\<close>

text \<open>
  The file maps a CoreVideo pixel buffer to OpenGL rectangle textures. This theory embeds
  its format table, the two table lookups, \<^verbatim>\<open>download_image\<close>, \<^verbatim>\<open>get_vt_fmt\<close>,
  \<^verbatim>\<open>reinit\<close>, \<^verbatim>\<open>map_frame\<close> and \<^verbatim>\<open>destroy\<close>. Calls into CoreVideo, OpenGL and the
  logger are recorded, in program order, in a list of events that every function returns
  next to its result.
\<close>

subsection \<open>Machine types and constants of the platform headers\<close>

type_synonym u32 = "32 word"

text \<open>A C \<^verbatim>\<open>int\<close> that is only stored and compared is kept as its 32-bit pattern.\<close>

type_synonym cint = "32 word"

type_synonym GLenum = "32 word"
type_synonym GLuint = "32 word"

text \<open>The four-character codes of \<^verbatim>\<open>CoreVideo/CVPixelBuffer.h\<close>: '420v', '2vuy', 'y420', 'BGRA'.\<close>

definition kCVPixelFormatType_420YpCbCr8BiPlanarVideoRange :: u32 where
  "kCVPixelFormatType_420YpCbCr8BiPlanarVideoRange = 0x34323076"

definition kCVPixelFormatType_422YpCbCr8 :: u32 where
  "kCVPixelFormatType_422YpCbCr8 = 0x32767579"

definition kCVPixelFormatType_420YpCbCr8Planar :: u32 where
  "kCVPixelFormatType_420YpCbCr8Planar = 0x79343230"

definition kCVPixelFormatType_32BGRA :: u32 where
  "kCVPixelFormatType_32BGRA = 0x42475241"

text \<open>The enumerants of the OpenGL headers that the table and \<^verbatim>\<open>map_frame\<close> name.\<close>

definition GL_UNSIGNED_BYTE :: GLenum where "GL_UNSIGNED_BYTE = 0x1401"
definition GL_RED :: GLenum where "GL_RED = 0x1903"
definition GL_RGB :: GLenum where "GL_RGB = 0x1907"
definition GL_RGBA :: GLenum where "GL_RGBA = 0x1908"
definition GL_BGRA :: GLenum where "GL_BGRA = 0x80E1"
definition GL_RG :: GLenum where "GL_RG = 0x8227"
definition GL_UNSIGNED_INT_8_8_8_8_REV :: GLenum where "GL_UNSIGNED_INT_8_8_8_8_REV = 0x8367"
definition GL_TEXTURE_RECTANGLE :: GLenum where "GL_TEXTURE_RECTANGLE = 0x84F5"
definition GL_UNSIGNED_SHORT_8_8_APPLE :: GLenum where "GL_UNSIGNED_SHORT_8_8_APPLE = 0x85BA"
definition GL_RGB_422_APPLE :: GLenum where "GL_RGB_422_APPLE = 0x8A1F"

text \<open>
  The image-format enumerators come from \<^verbatim>\<open>video/img_format.h\<close>, which is not part of
  the sources at hand. Their numeric values are therefore a parameter of the model: every
  definition that reads one of them takes a record of the five values.
\<close>

record img_format_h =
  IMGFMT_NV12 :: cint
  IMGFMT_UYVY :: cint
  IMGFMT_420P :: cint
  IMGFMT_RGB0 :: cint
  IMGFMT_VIDEOTOOLBOX :: cint

text \<open>
  Modelled from the spec: \<^verbatim>\<open>MP_MAX_PLANES\<close> of \<^verbatim>\<open>video/img_format.h\<close>, the capacity of
  every per-plane array; the spec bounds the plane count of a descriptor by 4.
\<close>

definition MP_MAX_PLANES :: nat where
  "MP_MAX_PLANES = 4"

subsection \<open>The format table\<close>

text \<open>
  \<^verbatim>\<open>char swizzle[5]\<close> is read as the string before its terminating NUL. The field
  \<^verbatim>\<open>planes\<close> bounds the loops over the planes and is kept as an integer.
\<close>

record vt_gl_plane_format =
  gl_format :: GLenum
  gl_type :: GLenum
  gl_internal_format :: GLenum
  swizzle :: string

record vt_format =
  cvpixfmt :: u32
  imgfmt :: cint
  planes :: int
  gl :: "vt_gl_plane_format list"

text \<open>An array element without initialiser is zero-filled.\<close>

definition zero_plane_format :: vt_gl_plane_format where
  "zero_plane_format = \<lparr>gl_format = 0, gl_type = 0, gl_internal_format = 0, swizzle = ''''\<rparr>"

definition plane_format :: "GLenum \<Rightarrow> GLenum \<Rightarrow> GLenum \<Rightarrow> string \<Rightarrow> vt_gl_plane_format" where
  "plane_format f t i s = \<lparr>gl_format = f, gl_type = t, gl_internal_format = i, swizzle = s\<rparr>"

definition vt_formats :: "img_format_h \<Rightarrow> vt_format list" where
  "vt_formats K =
    [ \<lparr>cvpixfmt = kCVPixelFormatType_420YpCbCr8BiPlanarVideoRange,
       imgfmt = IMGFMT_NV12 K,
       planes = 2,
       gl = [plane_format GL_RED GL_UNSIGNED_BYTE GL_RED '''',
             plane_format GL_RG GL_UNSIGNED_BYTE GL_RG '''',
             zero_plane_format, zero_plane_format]\<rparr>,
      \<lparr>cvpixfmt = kCVPixelFormatType_422YpCbCr8,
       imgfmt = IMGFMT_UYVY K,
       planes = 1,
       gl = [plane_format GL_RGB_422_APPLE GL_UNSIGNED_SHORT_8_8_APPLE GL_RGB ''gbra'',
             zero_plane_format, zero_plane_format, zero_plane_format]\<rparr>,
      \<lparr>cvpixfmt = kCVPixelFormatType_420YpCbCr8Planar,
       imgfmt = IMGFMT_420P K,
       planes = 3,
       gl = [plane_format GL_RED GL_UNSIGNED_BYTE GL_RED '''',
             plane_format GL_RED GL_UNSIGNED_BYTE GL_RED '''',
             plane_format GL_RED GL_UNSIGNED_BYTE GL_RED '''',
             zero_plane_format]\<rparr>,
      \<lparr>cvpixfmt = kCVPixelFormatType_32BGRA,
       imgfmt = IMGFMT_RGB0 K,
       planes = 1,
       gl = [plane_format GL_BGRA GL_UNSIGNED_INT_8_8_8_8_REV GL_RGBA '''',
             zero_plane_format, zero_plane_format, zero_plane_format]\<rparr> ]"

text \<open>
  Both lookups walk the table from index 0 and return the first entry whose field equals
  the argument, or \<^verbatim>\<open>NULL\<close> (here \<open>None\<close>). In \<^verbatim>\<open>vt_get_gl_format_from_imgfmt\<close> the
  \<^verbatim>\<open>int\<close> field is compared with a \<^verbatim>\<open>uint32_t\<close> argument, so C compares the two
  32-bit patterns.
\<close>

definition vt_get_gl_format :: "img_format_h \<Rightarrow> u32 \<Rightarrow> vt_format option" where
  "vt_get_gl_format K c = find (\<lambda>e. cvpixfmt e = c) (vt_formats K)"

definition vt_get_gl_format_from_imgfmt :: "img_format_h \<Rightarrow> u32 \<Rightarrow> vt_format option" where
  "vt_get_gl_format_from_imgfmt K i = find (\<lambda>e. imgfmt e = i) (vt_formats K)"

subsection \<open>CoreVideo objects and the calls the file makes\<close>

text \<open>
  A \<^verbatim>\<open>CVPixelBufferRef\<close> is an address; \<^verbatim>\<open>NULL\<close> is address 0. What CoreVideo and
  IOSurface answer for a buffer is given by a function from addresses to the record below,
  one field per getter the file calls (\<^verbatim>\<open>CVPixelBufferGetIOSurface\<close>,
  \<^verbatim>\<open>CVPixelBufferGetPixelFormatType\<close>, \<^verbatim>\<open>CVPixelBufferIsPlanar\<close>,
  \<^verbatim>\<open>CVPixelBufferGetPlaneCount\<close>, \<^verbatim>\<open>CVPixelBufferGetWidth\<close>,
  \<^verbatim>\<open>CVPixelBufferGetHeight\<close>, \<^verbatim>\<open>CVPixelBufferGetBaseAddressOfPlane\<close>,
  \<^verbatim>\<open>CVPixelBufferGetBytesPerRowOfPlane\<close>). Sizes are \<^verbatim>\<open>size_t\<close>, kept as naturals.
\<close>

type_synonym CVPixelBufferRef = nat

definition NULL :: nat where
  "NULL = 0"

record IOSurface =
  width_of_plane :: "nat \<Rightarrow> nat"
  height_of_plane :: "nat \<Rightarrow> nat"

record CVPixelBuffer =
  io_surface :: "IOSurface option"
  pixel_format_type :: u32
  is_planar :: bool
  plane_count :: nat
  pb_width :: nat
  pb_height :: nat
  base_address_of_plane :: "nat \<Rightarrow> nat"
  bytes_per_row_of_plane :: "nat \<Rightarrow> nat"

type_synonym core_video = "CVPixelBufferRef \<Rightarrow> CVPixelBuffer"

type_synonym CGLError = cint

definition kCGLNoError :: CGLError where
  "kCGLNoError = 0"

text \<open>
  The answer of \<^verbatim>\<open>CGLTexImageIOSurface2D\<close> is a parameter: a function of the arguments
  of the call (target, internal format, width, height, format, type, surface, plane).
\<close>

type_synonym cgl_tex_image =
  "GLenum \<Rightarrow> GLenum \<Rightarrow> nat \<Rightarrow> nat \<Rightarrow> GLenum \<Rightarrow> GLenum \<Rightarrow> IOSurface \<Rightarrow> nat \<Rightarrow> CGLError"

text \<open>
  The calls with an effect outside the file, in the order the code makes them. \<open>MP_ERR\<close>
  carries the fixed text of a log line (without its newline); \<open>MP_ERR_plane\<close> is the
  per-plane message of \<^verbatim>\<open>map_frame\<close> with its plane index and CGL error.
\<close>

datatype event =
    CVPixelBufferRelease CVPixelBufferRef
  | CVPixelBufferRetain CVPixelBufferRef
  | CVPixelBufferLockBaseAddress CVPixelBufferRef
  | CVPixelBufferUnlockBaseAddress CVPixelBufferRef
  | GenTextures nat
  | BindTexture GLenum GLuint
  | CGLTexImageIOSurface2D GLenum GLenum nat nat GLenum GLenum nat
  | DeleteTextures nat "GLuint list"
  | hwdec_devices_add
  | hwdec_devices_remove
  | pool_new_copy
  | MP_ERR string
  | MP_ERR_plane nat CGLError

text \<open>A call either returns its \<^verbatim>\<open>int\<close> or stops the process in a failed \<^verbatim>\<open>assert\<close>.\<close>

datatype outcome = Returned int | AssertionFailed

subsection \<open>Structures of the headers\<close>

text \<open>
  The records hold the fields this file reads or writes. Fields that share a name in C
  carry a prefix here: \<open>mpi_\<close> for \<^verbatim>\<open>struct mp_image\<close>, \<open>params_\<close> for
  \<^verbatim>\<open>struct mp_image_params\<close>. A fixed-size C array is a list; the plane arrays have
  \<open>MP_MAX_PLANES\<close> elements.
\<close>

record mp_image =
  mpi_imgfmt :: cint
  mpi_w :: nat
  mpi_h :: nat
  mpi_planes :: "nat list"
  mpi_stride :: "nat list"

record mp_image_params =
  params_imgfmt :: cint
  params_hw_subfmt :: cint

text \<open>
  Modelled from the spec: \<^verbatim>\<open>struct gl_hwdec_plane\<close> and \<^verbatim>\<open>struct gl_hwdec_frame\<close> of
  \<^verbatim>\<open>hwdec.h\<close>, the spec's ImportedTextureSet: a fixed-size sequence of texture handle,
  target kind, width, height and a swizzle string of at most 4 characters. Width and
  height are kept as the naturals that IOSurface reports.
\<close>

record gl_hwdec_plane =
  gl_texture :: GLuint
  gl_target :: GLenum
  tex_w :: nat
  tex_h :: nat
  plane_swizzle :: string

record gl_hwdec_frame =
  frame_planes :: "gl_hwdec_plane list"

record priv =
  pbuf :: CVPixelBufferRef
  gl_planes :: "GLuint list"

text \<open>
  The functions of \<^verbatim>\<open>video/mp_image.h\<close> and \<^verbatim>\<open>video/mp_image_pool.h\<close> that
  \<^verbatim>\<open>download_image\<close> calls are parameters. \<open>mp_image_pool_new_copy\<close> answers \<open>None\<close>
  for \<^verbatim>\<open>NULL\<close>.
\<close>

record mp_image_h =
  mp_image_setfmt :: "mp_image \<Rightarrow> cint \<Rightarrow> mp_image"
  mp_image_set_size :: "mp_image \<Rightarrow> nat \<Rightarrow> nat \<Rightarrow> mp_image"
  mp_image_copy_attributes :: "mp_image \<Rightarrow> mp_image \<Rightarrow> mp_image"
  mp_image_pool_new_copy :: "mp_image \<Rightarrow> mp_image option"

subsection \<open>\<^verbatim>\<open>download_image\<close>\<close>

text \<open>\<^verbatim>\<open>struct mp_image img = {0}\<close>.\<close>

definition zero_image :: mp_image where
  "zero_image = \<lparr>mpi_imgfmt = 0, mpi_w = 0, mpi_h = 0,
                  mpi_planes = replicate MP_MAX_PLANES 0,
                  mpi_stride = replicate MP_MAX_PLANES 0\<rparr>"

text \<open>The loop \<^verbatim>\<open>for (int i = 0; i < f->planes; i++)\<close> that fills planes and strides.\<close>

function download_planes :: "CVPixelBuffer \<Rightarrow> vt_format \<Rightarrow> nat \<Rightarrow> mp_image \<Rightarrow> mp_image" where
  "download_planes b f i img =
     (if int i < planes f then
        download_planes b f (Suc i)
          (img\<lparr>mpi_planes := (mpi_planes img)[i := base_address_of_plane b i],
               mpi_stride := (mpi_stride img)[i := bytes_per_row_of_plane b i]\<rparr>)
      else img)"
  by pat_completeness auto
termination
  by (relation "measure (\<lambda>(b, f, i, img). nat (planes f) - i)") auto

declare download_planes.simps [simp del]

definition download_image ::
  "img_format_h \<Rightarrow> mp_image_h \<Rightarrow> core_video \<Rightarrow> mp_image \<Rightarrow> mp_image option \<times> event list" where
  "download_image K A cv hw_image =
     (if mpi_imgfmt hw_image \<noteq> IMGFMT_VIDEOTOOLBOX K then (None, [])
      else
        let pb = mpi_planes hw_image ! 3;
            t = [CVPixelBufferLockBaseAddress pb];
            width = pb_width (cv pb);
            height = pb_height (cv pb)
        in case vt_get_gl_format K (pixel_format_type (cv pb)) of
             None \<Rightarrow> (None, t @ [CVPixelBufferUnlockBaseAddress pb])
           | Some f \<Rightarrow>
               let img0 = mp_image_set_size A (mp_image_setfmt A zero_image (imgfmt f)) width height;
                   img1 = download_planes (cv pb) f 0 img0;
                   img2 = mp_image_copy_attributes A img1 hw_image;
                   image = mp_image_pool_new_copy A img2
               in (image, t @ [pool_new_copy] @ [CVPixelBufferUnlockBaseAddress pb]))"

subsection \<open>\<^verbatim>\<open>check_hwdec\<close>, \<^verbatim>\<open>get_vt_fmt\<close>, \<^verbatim>\<open>create\<close>, \<^verbatim>\<open>reinit\<close>\<close>

definition check_hwdec :: "int \<Rightarrow> bool \<Rightarrow> bool \<times> event list" where
  "check_hwdec gl_version have_context =
     (if gl_version < 300
      then (False, [MP_ERR ''need >= OpenGL 3.0 for core rectangle texture support''])
      else if \<not> have_context
      then (False, [MP_ERR ''need cocoa opengl backend to be active''])
      else (True, []))"

text \<open>The argument is the option \<^verbatim>\<open>hw->global->opts->videotoolbox_format\<close>.\<close>

definition get_vt_fmt :: "img_format_h \<Rightarrow> cint \<Rightarrow> u32" where
  "get_vt_fmt K videotoolbox_format =
     (case vt_get_gl_format_from_imgfmt K videotoolbox_format of
        Some f \<Rightarrow> cvpixfmt f
      | None \<Rightarrow> - 1)"

text \<open>
  \<^verbatim>\<open>talloc_zero\<close> gives a zeroed \<^verbatim>\<open>struct priv\<close>; \<^verbatim>\<open>GenTextures\<close> then writes
  \<open>MP_MAX_PLANES\<close> texture names, which are a parameter.
\<close>

definition create :: "int \<Rightarrow> bool \<Rightarrow> GLuint list \<Rightarrow> int \<times> priv option \<times> event list" where
  "create gl_version have_context names =
     (case check_hwdec gl_version have_context of
        (False, t) \<Rightarrow> (- 1, None, t)
      | (True, t) \<Rightarrow>
          (0, Some \<lparr>pbuf = NULL, gl_planes = take MP_MAX_PLANES names\<rparr>,
           t @ [GenTextures MP_MAX_PLANES, hwdec_devices_add]))"

text \<open>\<^verbatim>\<open>hw->driver->imgfmt\<close> is the \<^verbatim>\<open>.imgfmt\<close> of \<^verbatim>\<open>gl_hwdec_videotoolbox\<close>.\<close>

definition reinit :: "img_format_h \<Rightarrow> mp_image_params \<Rightarrow> outcome \<times> mp_image_params \<times> event list" where
  "reinit K params =
     (if params_imgfmt params \<noteq> IMGFMT_VIDEOTOOLBOX K then (AssertionFailed, params, [])
      else
        case vt_get_gl_format_from_imgfmt K (params_hw_subfmt params) of
          None \<Rightarrow> (Returned (- 1), params, [MP_ERR ''Unsupported CVPixelBuffer format.''])
        | Some f \<Rightarrow>
            (Returned 0, params\<lparr>params_imgfmt := imgfmt f, params_hw_subfmt := 0\<rparr>, []))"

subsection \<open>\<^verbatim>\<open>map_frame\<close> and \<^verbatim>\<open>destroy\<close>\<close>

text \<open>\<^verbatim>\<open>const int planes = CVPixelBufferGetPlaneCount(...)\<close>: a 64-bit \<^verbatim>\<open>size_t\<close> stored in a 32-bit \<^verbatim>\<open>int\<close>.\<close>

definition int_of_size_t :: "nat \<Rightarrow> int" where
  "int_of_size_t n = signed_take_bit 31 (int n)"

text \<open>
  The asserted expression \<^verbatim>\<open>planar && planes == f->planes || f->planes == 1\<close>; in C
  \<^verbatim>\<open>&&\<close> binds tighter than \<^verbatim>\<open>||\<close>.
\<close>

definition map_frame_assertion :: "bool \<Rightarrow> int \<Rightarrow> vt_format \<Rightarrow> bool" where
  "map_frame_assertion planar n f \<longleftrightarrow> (planar \<and> n = planes f) \<or> planes f = 1"

text \<open>\<^verbatim>\<open>snprintf(dst, size, "%s", src)\<close> keeps at most \<open>size - 1\<close> characters of the source.\<close>

definition snprintf_s :: "nat \<Rightarrow> string \<Rightarrow> string" where
  "snprintf_s n src = take (n - 1) src"

text \<open>
  The loop over the planes. Every index it uses is below \<^verbatim>\<open>f->planes\<close>, which is at most
  3 for the entries of the table, so below the size of the three arrays it indexes.
\<close>

function map_frame_planes ::
  "cgl_tex_image \<Rightarrow> priv \<Rightarrow> IOSurface \<Rightarrow> vt_format \<Rightarrow> nat \<Rightarrow> gl_hwdec_frame \<Rightarrow> event list
     \<Rightarrow> gl_hwdec_frame \<times> event list" where
  "map_frame_planes cgl p surface f i out_frame t =
     (if int i < planes f then
        let pf = gl f ! i;
            w = width_of_plane surface i;
            h = height_of_plane surface i;
            err = cgl GL_TEXTURE_RECTANGLE (gl_internal_format pf) w h
                      (gl_format pf) (gl_type pf) surface i;
            t1 = t @ [BindTexture GL_TEXTURE_RECTANGLE (gl_planes p ! i),
                      CGLTexImageIOSurface2D GL_TEXTURE_RECTANGLE (gl_internal_format pf) w h
                        (gl_format pf) (gl_type pf) i]
                   @ (if err \<noteq> kCGLNoError then [MP_ERR_plane i err] else [])
                   @ [BindTexture GL_TEXTURE_RECTANGLE 0];
            out1 = out_frame\<lparr>frame_planes := (frame_planes out_frame)
                     [i := \<lparr>gl_texture = gl_planes p ! i,
                            gl_target = GL_TEXTURE_RECTANGLE,
                            tex_w = w,
                            tex_h = h,
                            plane_swizzle = snprintf_s 5 (swizzle pf)\<rparr>]\<rparr>
        in map_frame_planes cgl p surface f (Suc i) out1 t1
      else (out_frame, t))"
  by pat_completeness auto
termination
  by (relation "measure (\<lambda>(cgl, p, surface, f, i, out_frame, t). nat (planes f) - i)") auto

declare map_frame_planes.simps [simp del]

definition map_frame ::
  "img_format_h \<Rightarrow> core_video \<Rightarrow> cgl_tex_image \<Rightarrow> priv \<Rightarrow> mp_image \<Rightarrow> gl_hwdec_frame
     \<Rightarrow> outcome \<times> priv \<times> gl_hwdec_frame \<times> event list" where
  "map_frame K cv cgl p hw_image out_frame =
     (let t0 = [CVPixelBufferRelease (pbuf p)];
          p1 = p\<lparr>pbuf := mpi_planes hw_image ! 3\<rparr>;
          t1 = t0 @ [CVPixelBufferRetain (pbuf p1)]
      in case io_surface (cv (pbuf p1)) of
           None \<Rightarrow>
             (Returned (- 1), p1, out_frame, t1 @ [MP_ERR ''CVPixelBuffer has no IOSurface''])
         | Some surface \<Rightarrow>
             (case vt_get_gl_format K (pixel_format_type (cv (pbuf p1))) of
                None \<Rightarrow>
                  (Returned (- 1), p1, out_frame,
                   t1 @ [MP_ERR ''CVPixelBuffer has unsupported format type''])
              | Some f \<Rightarrow>
                  let planar = is_planar (cv (pbuf p1));
                      n = int_of_size_t (plane_count (cv (pbuf p1)))
                  in if \<not> map_frame_assertion planar n f
                     then (AssertionFailed, p1, out_frame, t1)
                     else
                       (case map_frame_planes cgl p1 surface f 0 out_frame t1 of
                          (out1, t2) \<Rightarrow> (Returned 0, p1, out1, t2))))"

definition destroy :: "priv \<Rightarrow> event list" where
  "destroy p =
     [CVPixelBufferRelease (pbuf p), DeleteTextures MP_MAX_PLANES (gl_planes p),
      hwdec_devices_remove]"

text \<open>
  Successive calls of \<^verbatim>\<open>map_frame\<close> on one \<^verbatim>\<open>struct priv\<close> and one output frame. Each
  call has its own frame and its own answers from CoreVideo and CGL. A failed assertion
  ends the process, so no later call runs. The result lists the outcome of every call
  that ran, the last state, and the events of all calls.
\<close>

record map_call =
  call_cv :: core_video
  call_cgl :: cgl_tex_image
  call_image :: mp_image

fun map_frames ::
  "img_format_h \<Rightarrow> map_call list \<Rightarrow> priv \<Rightarrow> gl_hwdec_frame
     \<Rightarrow> outcome list \<times> priv \<times> gl_hwdec_frame \<times> event list" where
  "map_frames K [] p out_frame = ([], p, out_frame, [])"
| "map_frames K (c # cs) p out_frame =
     (case map_frame K (call_cv c) (call_cgl c) p (call_image c) out_frame of
        (r, p1, out1, t1) \<Rightarrow>
          if r = AssertionFailed then ([r], p1, out1, t1)
          else (case map_frames K cs p1 out1 of
                  (rs, p2, out2, t2) \<Rightarrow> (r # rs, p2, out2, t1 @ t2)))"

subsection \<open>Observers used to state the properties\<close>

text \<open>
  The references to pixel buffers that the component owns after a list of events, as a
  multiset of addresses. CoreVideo documents \<^verbatim>\<open>CVPixelBufferRetain\<close> and
  \<^verbatim>\<open>CVPixelBufferRelease\<close> as doing nothing for \<^verbatim>\<open>NULL\<close>. Releasing a buffer of which no
  reference is owned has no result (\<open>None\<close>).
\<close>

fun cv_reference :: "event \<Rightarrow> CVPixelBufferRef multiset \<Rightarrow> CVPixelBufferRef multiset option" where
  "cv_reference (CVPixelBufferRetain r) h = Some (if r = NULL then h else add_mset r h)"
| "cv_reference (CVPixelBufferRelease r) h =
     (if r = NULL then Some h else if r \<in># h then Some (h - {#r#}) else None)"
| "cv_reference _ h = Some h"

fun owned_after :: "event list \<Rightarrow> CVPixelBufferRef multiset \<Rightarrow> CVPixelBufferRef multiset option" where
  "owned_after [] h = Some h"
| "owned_after (e # es) h =
     (case cv_reference e h of None \<Rightarrow> None | Some h' \<Rightarrow> owned_after es h')"

text \<open>What the slot of \<^verbatim>\<open>struct priv\<close> accounts for: one reference, or none when it is \<^verbatim>\<open>NULL\<close>.\<close>

definition slot_reference :: "priv \<Rightarrow> CVPixelBufferRef multiset" where
  "slot_reference p = (if pbuf p = NULL then {#} else {#pbuf p#})"

text \<open>The events of one kind in a list.\<close>

definition locks_of :: "event list \<Rightarrow> event list" where
  "locks_of t = filter (\<lambda>e. case e of CVPixelBufferLockBaseAddress _ \<Rightarrow> True | _ \<Rightarrow> False) t"

definition unlocks_of :: "event list \<Rightarrow> event list" where
  "unlocks_of t = filter (\<lambda>e. case e of CVPixelBufferUnlockBaseAddress _ \<Rightarrow> True | _ \<Rightarrow> False) t"

definition tex_image_planes :: "event list \<Rightarrow> nat list" where
  "tex_image_planes t =
     concat (map (\<lambda>e. case e of CGLTexImageIOSurface2D _ _ _ _ _ _ i \<Rightarrow> [i] | _ \<Rightarrow> []) t)"

text \<open>
  The plane-count condition in the words of the specification: the descriptor's plane
  count equals the frame's reported plane count when the frame is planar, or the
  descriptor's plane count is 1 when the frame is non-planar.
\<close>

definition spec_plane_count_consistent :: "bool \<Rightarrow> int \<Rightarrow> vt_format \<Rightarrow> bool" where
  "spec_plane_count_consistent planar n f \<longleftrightarrow>
     (planar \<and> planes f = n) \<or> (\<not> planar \<and> planes f = 1)"


text \<open>The entry that \<^verbatim>\<open>map_frame\<close> writes to \<^verbatim>\<open>out_frame->planes[i]\<close>.\<close>

definition mapped_plane :: "priv \<Rightarrow> IOSurface \<Rightarrow> vt_format \<Rightarrow> nat \<Rightarrow> gl_hwdec_plane" where
  "mapped_plane p surface f i =
     \<lparr>gl_texture = gl_planes p ! i,
      gl_target = GL_TEXTURE_RECTANGLE,
      tex_w = width_of_plane surface i,
      tex_h = height_of_plane surface i,
      plane_swizzle = snprintf_s 5 (swizzle (gl f ! i))\<rparr>"

text \<open>What \<^verbatim>\<open>CGLTexImageIOSurface2D\<close> answers to the call that \<^verbatim>\<open>map_frame\<close> makes for plane \<open>i\<close>.\<close>

definition plane_error :: "cgl_tex_image \<Rightarrow> IOSurface \<Rightarrow> vt_format \<Rightarrow> nat \<Rightarrow> CGLError" where
  "plane_error cgl surface f i =
     cgl GL_TEXTURE_RECTANGLE (gl_internal_format (gl f ! i))
       (width_of_plane surface i) (height_of_plane surface i)
       (gl_format (gl f ! i)) (gl_type (gl f ! i)) surface i"

text \<open>The retain and release calls in a list of events.\<close>

definition references_of :: "event list \<Rightarrow> event list" where
  "references_of t =
     filter (\<lambda>e. case e of CVPixelBufferRelease _ \<Rightarrow> True
                         | CVPixelBufferRetain _ \<Rightarrow> True
                         | _ \<Rightarrow> False) t"

subsection \<open>Sample inputs\<close>

text \<open>
  Concrete values at which the theorems below are instantiated. The enumerators get five
  pairwise different values. Address 1 is a bi-planar video-range buffer, address 2 a
  buffer with a surface and a pixel format outside the table, address 3 a buffer tagged
  BGRA that reports itself planar with two planes, address 4 a buffer tagged bi-planar
  that reports itself non-planar; every other address has no surface.
\<close>

definition sample_formats :: img_format_h where
  "sample_formats = \<lparr>IMGFMT_NV12 = 1001, IMGFMT_UYVY = 1002, IMGFMT_420P = 1003,
                      IMGFMT_RGB0 = 1004, IMGFMT_VIDEOTOOLBOX = 1005\<rparr>"

definition sample_surface :: IOSurface where
  "sample_surface = \<lparr>width_of_plane = (\<lambda>i. if i = 0 then 1920 else 960),
                      height_of_plane = (\<lambda>i. if i = 0 then 1080 else 540)\<rparr>"

definition sample_buffer :: "IOSurface option \<Rightarrow> u32 \<Rightarrow> bool \<Rightarrow> nat \<Rightarrow> CVPixelBuffer" where
  "sample_buffer s fmt planar n =
     \<lparr>io_surface = s, pixel_format_type = fmt, is_planar = planar, plane_count = n,
      pb_width = 1920, pb_height = 1080,
      base_address_of_plane = (\<lambda>i. 4096 * (i + 1)),
      bytes_per_row_of_plane = (\<lambda>i. 2048)\<rparr>"

definition sample_cv :: core_video where
  "sample_cv r =
     (if r = 1 then sample_buffer (Some sample_surface)
                      kCVPixelFormatType_420YpCbCr8BiPlanarVideoRange True 2
      else if r = 2 then sample_buffer (Some sample_surface) 0 False 0
      else if r = 3 then sample_buffer (Some sample_surface) kCVPixelFormatType_32BGRA True 2
      else if r = 4 then sample_buffer (Some sample_surface)
                           kCVPixelFormatType_420YpCbCr8BiPlanarVideoRange False 0
      else sample_buffer None 0 False 0)"

text \<open>A CGL that fails on plane 0 (with \<^verbatim>\<open>kCGLBadAttribute\<close>) and succeeds on the others.\<close>

definition sample_cgl :: cgl_tex_image where
  "sample_cgl target internal w h format type surface i = (if i = 0 then 10000 else kCGLNoError)"

definition sample_image :: "CVPixelBufferRef \<Rightarrow> mp_image" where
  "sample_image r = \<lparr>mpi_imgfmt = IMGFMT_VIDEOTOOLBOX sample_formats, mpi_w = 1920, mpi_h = 1080,
                      mpi_planes = [0, 0, 0, r], mpi_stride = [0, 0, 0, 0]\<rparr>"

definition sample_call :: "CVPixelBufferRef \<Rightarrow> map_call" where
  "sample_call r = \<lparr>call_cv = sample_cv, call_cgl = sample_cgl, call_image = sample_image r\<rparr>"

definition sample_priv :: priv where
  "sample_priv = \<lparr>pbuf = NULL, gl_planes = [1, 2, 3, 4]\<rparr>"

text \<open>The state after a frame with the buffer at address 1 has been mapped.\<close>

definition sample_priv_mapped :: priv where
  "sample_priv_mapped = \<lparr>pbuf = 1, gl_planes = [1, 2, 3, 4]\<rparr>"

definition sample_plane :: gl_hwdec_plane where
  "sample_plane = \<lparr>gl_texture = 0, gl_target = 0, tex_w = 0, tex_h = 0, plane_swizzle = ''''\<rparr>"

definition sample_out_frame :: gl_hwdec_frame where
  "sample_out_frame = \<lparr>frame_planes = [sample_plane, sample_plane, sample_plane, sample_plane]\<rparr>"

definition sample_mp_image_h :: mp_image_h where
  "sample_mp_image_h =
     \<lparr>mp_image_setfmt = (\<lambda>img fmt. img\<lparr>mpi_imgfmt := fmt\<rparr>),
      mp_image_set_size = (\<lambda>img w h. img\<lparr>mpi_w := w, mpi_h := h\<rparr>),
      mp_image_copy_attributes = (\<lambda>dst src. dst),
      mp_image_pool_new_copy = (\<lambda>img. Some img)\<rparr>"

section \<open>Properties\<close>

subsection \<open>The table and its lookups\<close>

lemmas cvpixfmt_defs =
  kCVPixelFormatType_420YpCbCr8BiPlanarVideoRange_def kCVPixelFormatType_422YpCbCr8_def
  kCVPixelFormatType_420YpCbCr8Planar_def kCVPixelFormatType_32BGRA_def

lemma cvpixfmt_distinct: "distinct (map cvpixfmt (vt_formats K))"
  by (simp add: vt_formats_def cvpixfmt_defs)

lemma imgfmt_distinct:
  "distinct [IMGFMT_NV12 K, IMGFMT_UYVY K, IMGFMT_420P K, IMGFMT_RGB0 K]
     \<Longrightarrow> distinct (map imgfmt (vt_formats K))"
  by (simp add: vt_formats_def)

lemma find_distinct_key:
  "distinct (map k xs) \<Longrightarrow> e \<in> set xs \<Longrightarrow> find (\<lambda>x. k x = k e) xs = Some e"
  by (induction xs) (auto simp: rev_image_eqI)

lemma find_Some_key: "find (\<lambda>x. k x = v) xs = Some e \<Longrightarrow> e \<in> set xs \<and> k e = v"
  by (induction xs) (auto split: if_splits)

lemma find_None_key: "find (\<lambda>x. k x = v) xs = None \<longleftrightarrow> v \<notin> k ` set xs"
  by (induction xs) auto

lemma sample_formats_distinct:
  "distinct [IMGFMT_NV12 sample_formats, IMGFMT_UYVY sample_formats,
             IMGFMT_420P sample_formats, IMGFMT_RGB0 sample_formats]"
  by (simp add: sample_formats_def)

lemma cvpixfmt_not_all_ones: "e \<in> set (vt_formats K) \<Longrightarrow> cvpixfmt e \<noteq> - 1"
  by (auto simp: vt_formats_def cvpixfmt_defs)

lemma vt_formats_planes: "e \<in> set (vt_formats K) \<Longrightarrow> 1 \<le> planes e \<and> planes e \<le> 3"
  by (auto simp: vt_formats_def)

lemma vt_get_gl_format_planes:
  "vt_get_gl_format K c = Some f \<Longrightarrow> 1 \<le> planes f \<and> planes f \<le> 3"
  using find_Some_key[of cvpixfmt c "vt_formats K" f] vt_formats_planes[of f K]
  by (simp add: vt_get_gl_format_def)

lemma sample_buffer_address [simp]: "mpi_planes (sample_image r) ! 3 = r"
  by (simp add: sample_image_def)

text \<open>
  Claim C1. For every entry of the format table, \<^verbatim>\<open>vt_get_gl_format\<close> on the entry's
  \<^verbatim>\<open>cvpixfmt\<close> and \<^verbatim>\<open>vt_get_gl_format_from_imgfmt\<close> on the entry's \<^verbatim>\<open>imgfmt\<close> both
  return that entry, and each of the two fields is unique across the table. The four
  image-format enumerators of the table are taken to be pairwise different, as they are in
  the \<^verbatim>\<open>enum\<close> that declares them.
\<close>

theorem lookups_round_trip:
  assumes "distinct [IMGFMT_NV12 K, IMGFMT_UYVY K, IMGFMT_420P K, IMGFMT_RGB0 K]"
  shows "(\<forall>e \<in> set (vt_formats K).
            vt_get_gl_format K (cvpixfmt e) = Some e \<and>
            vt_get_gl_format_from_imgfmt K (imgfmt e) = Some e) \<and>
         distinct (map cvpixfmt (vt_formats K)) \<and>
         distinct (map imgfmt (vt_formats K))"
  using find_distinct_key[OF cvpixfmt_distinct] find_distinct_key[OF imgfmt_distinct[OF assms]]
    cvpixfmt_distinct imgfmt_distinct[OF assms]
  by (simp add: vt_get_gl_format_def vt_get_gl_format_from_imgfmt_def)

text \<open>Claim C1 at the sample enumerators and the last entry of the table.\<close>

theorem lookups_round_trip_witness:
  "distinct [IMGFMT_NV12 sample_formats, IMGFMT_UYVY sample_formats,
             IMGFMT_420P sample_formats, IMGFMT_RGB0 sample_formats] \<and>
   vt_formats sample_formats ! 3 \<in> set (vt_formats sample_formats) \<and>
   vt_get_gl_format sample_formats kCVPixelFormatType_32BGRA
     = Some (vt_formats sample_formats ! 3) \<and>
   vt_get_gl_format_from_imgfmt sample_formats (IMGFMT_RGB0 sample_formats)
     = Some (vt_formats sample_formats ! 3)"
proof -
  have member: "vt_formats sample_formats ! 3 \<in> set (vt_formats sample_formats)"
    by (simp add: vt_formats_def)
  have fields: "cvpixfmt (vt_formats sample_formats ! 3) = kCVPixelFormatType_32BGRA"
    "imgfmt (vt_formats sample_formats ! 3) = IMGFMT_RGB0 sample_formats"
    by (simp_all add: vt_formats_def)
  show ?thesis
    using lookups_round_trip[OF sample_formats_distinct] sample_formats_distinct member fields
    by metis
qed

text \<open>
  Claim C9. \<^verbatim>\<open>get_vt_fmt\<close> returns \<^verbatim>\<open>(uint32_t)-1\<close>, the word with all 32 bits set, for
  every configured image format that is not in the table, and the \<^verbatim>\<open>cvpixfmt\<close> of the
  entry found for every format that is. No entry of the table has the all-ones value as
  its \<^verbatim>\<open>cvpixfmt\<close>, so the result is all-ones exactly when the format is not in the table.
\<close>

theorem get_vt_fmt_sentinel:
  "(v \<notin> imgfmt ` set (vt_formats K) \<longrightarrow> get_vt_fmt K v = - 1) \<and>
   (\<forall>e. vt_get_gl_format_from_imgfmt K v = Some e \<longrightarrow>
        e \<in> set (vt_formats K) \<and> imgfmt e = v \<and> get_vt_fmt K v = cvpixfmt e) \<and>
   (\<forall>e \<in> set (vt_formats K). cvpixfmt e \<noteq> - 1) \<and>
   (get_vt_fmt K v = - 1 \<longleftrightarrow> v \<notin> imgfmt ` set (vt_formats K)) \<and>
   (- 1 :: u32) = 0xFFFFFFFF"
proof -
  have none: "get_vt_fmt K v = - 1" if "v \<notin> imgfmt ` set (vt_formats K)"
    using that find_None_key[of imgfmt v "vt_formats K"]
    by (simp add: get_vt_fmt_def vt_get_gl_format_from_imgfmt_def)
  have some: "e \<in> set (vt_formats K) \<and> imgfmt e = v \<and> get_vt_fmt K v = cvpixfmt e"
    if "vt_get_gl_format_from_imgfmt K v = Some e" for e
    using that find_Some_key[of imgfmt v "vt_formats K" e]
    by (simp add: get_vt_fmt_def vt_get_gl_format_from_imgfmt_def)
  have ids: "\<forall>e \<in> set (vt_formats K). cvpixfmt e \<noteq> - 1"
    using cvpixfmt_not_all_ones by blast
  have iff: "get_vt_fmt K v = - 1 \<longleftrightarrow> v \<notin> imgfmt ` set (vt_formats K)"
  proof (cases "vt_get_gl_format_from_imgfmt K v")
    case None
    then show ?thesis using none find_None_key[of imgfmt v "vt_formats K"]
      by (simp add: vt_get_gl_format_from_imgfmt_def)
  next
    case (Some e)
    then show ?thesis using some[OF Some] ids by auto
  qed
  have ones: "(- 1 :: u32) = 0xFFFFFFFF" by simp
  show ?thesis using none some ids iff ones by blast
qed

text \<open>
  Claim C9 at the sample enumerators: the value 77 is not in the table and gives all-ones;
  the value of \<^verbatim>\<open>IMGFMT_NV12\<close> gives the bi-planar video-range code.
\<close>

theorem get_vt_fmt_sentinel_witness:
  "77 \<notin> imgfmt ` set (vt_formats sample_formats) \<and>
   get_vt_fmt sample_formats 77 = 0xFFFFFFFF \<and>
   vt_get_gl_format_from_imgfmt sample_formats 1001 = Some (vt_formats sample_formats ! 0) \<and>
   get_vt_fmt sample_formats 1001 = kCVPixelFormatType_420YpCbCr8BiPlanarVideoRange"
proof -
  have absent: "77 \<notin> imgfmt ` set (vt_formats sample_formats)"
    by (simp add: vt_formats_def sample_formats_def)
  have present: "vt_get_gl_format_from_imgfmt sample_formats 1001
                   = Some (vt_formats sample_formats ! 0)"
    by (simp add: vt_get_gl_format_from_imgfmt_def vt_formats_def sample_formats_def)
  have first: "cvpixfmt (vt_formats sample_formats ! 0)
                 = kCVPixelFormatType_420YpCbCr8BiPlanarVideoRange"
    by (simp add: vt_formats_def)
  show ?thesis
    using get_vt_fmt_sentinel[of 77 sample_formats] get_vt_fmt_sentinel[of 1001 sample_formats]
      absent present first
    by simp
qed

subsection \<open>\<^verbatim>\<open>reinit\<close>\<close>

text \<open>
  Claim C6. When the asserted precondition holds (the incoming \<^verbatim>\<open>imgfmt\<close> is the driver's
  format), \<^verbatim>\<open>reinit\<close> looks \<^verbatim>\<open>hw_subfmt\<close> up in the table by image format. If an entry is
  found it returns 0 and leaves \<^verbatim>\<open>imgfmt\<close> set to the entry's image format and
  \<^verbatim>\<open>hw_subfmt\<close> set to 0. If none is found it returns -1, logs the error and leaves the
  parameters as they were.
\<close>

theorem reinit_result:
  assumes "params_imgfmt params = IMGFMT_VIDEOTOOLBOX K"
  shows "(\<forall>f. vt_get_gl_format_from_imgfmt K (params_hw_subfmt params) = Some f \<longrightarrow>
            reinit K params =
              (Returned 0, params\<lparr>params_imgfmt := imgfmt f, params_hw_subfmt := 0\<rparr>, [])) \<and>
         (vt_get_gl_format_from_imgfmt K (params_hw_subfmt params) = None \<longrightarrow>
            reinit K params =
              (Returned (- 1), params, [MP_ERR ''Unsupported CVPixelBuffer format.'']))"
  using assms by (simp add: reinit_def)

text \<open>
  Claim C6 at sample parameters: sub-format \<^verbatim>\<open>IMGFMT_NV12\<close> is rewritten, sub-format 77
  is refused and the parameters stay.
\<close>

theorem reinit_result_witness:
  "reinit sample_formats \<lparr>params_imgfmt = 1005, params_hw_subfmt = 1001\<rparr>
     = (Returned 0, \<lparr>params_imgfmt = 1001, params_hw_subfmt = 0\<rparr>, []) \<and>
   reinit sample_formats \<lparr>params_imgfmt = 1005, params_hw_subfmt = 77\<rparr>
     = (Returned (- 1), \<lparr>params_imgfmt = 1005, params_hw_subfmt = 77\<rparr>,
        [MP_ERR ''Unsupported CVPixelBuffer format.''])"
proof -
  have vt: "IMGFMT_VIDEOTOOLBOX sample_formats = 1005"
    by (simp add: sample_formats_def)
  have found: "vt_get_gl_format_from_imgfmt sample_formats 1001 = Some (vt_formats sample_formats ! 0)"
    by (simp add: vt_get_gl_format_from_imgfmt_def vt_formats_def sample_formats_def)
  have first: "imgfmt (vt_formats sample_formats ! 0) = 1001"
    by (simp add: vt_formats_def sample_formats_def)
  have missing: "vt_get_gl_format_from_imgfmt sample_formats 77 = None"
    by (simp add: vt_get_gl_format_from_imgfmt_def vt_formats_def sample_formats_def)
  show ?thesis
    using reinit_result[of "\<lparr>params_imgfmt = 1005, params_hw_subfmt = 1001\<rparr>" sample_formats]
      reinit_result[of "\<lparr>params_imgfmt = 1005, params_hw_subfmt = 77\<rparr>" sample_formats]
      vt found first missing
    by simp
qed

subsection \<open>\<^verbatim>\<open>download_image\<close>\<close>

text \<open>
  Claim C5. A call of \<^verbatim>\<open>download_image\<close> that fails the format-tag check returns
  \<^verbatim>\<open>NULL\<close> without locking or unlocking anything. Every other call locks the buffer
  once, as its first event, and unlocks it once, as its last event; this includes the call
  whose pixel format is not in the table, which returns \<^verbatim>\<open>NULL\<close> after the lock and the
  unlock and nothing else.
\<close>

theorem download_image_unlocks_once:
  "(mpi_imgfmt hw_image \<noteq> IMGFMT_VIDEOTOOLBOX K \<longrightarrow>
      download_image K A cv hw_image = (None, [])) \<and>
   (mpi_imgfmt hw_image = IMGFMT_VIDEOTOOLBOX K \<longrightarrow>
      locks_of (snd (download_image K A cv hw_image))
        = [CVPixelBufferLockBaseAddress (mpi_planes hw_image ! 3)] \<and>
      unlocks_of (snd (download_image K A cv hw_image))
        = [CVPixelBufferUnlockBaseAddress (mpi_planes hw_image ! 3)] \<and>
      hd (snd (download_image K A cv hw_image))
        = CVPixelBufferLockBaseAddress (mpi_planes hw_image ! 3) \<and>
      last (snd (download_image K A cv hw_image))
        = CVPixelBufferUnlockBaseAddress (mpi_planes hw_image ! 3)) \<and>
   (mpi_imgfmt hw_image = IMGFMT_VIDEOTOOLBOX K \<and>
    vt_get_gl_format K (pixel_format_type (cv (mpi_planes hw_image ! 3))) = None \<longrightarrow>
      download_image K A cv hw_image =
        (None, [CVPixelBufferLockBaseAddress (mpi_planes hw_image ! 3),
                CVPixelBufferUnlockBaseAddress (mpi_planes hw_image ! 3)]))"
  by (simp add: download_image_def Let_def locks_of_def unlocks_of_def split: option.splits)

text \<open>
  Claim C5 at sample frames: the buffer at address 2 has a pixel format outside the table
  (the early exit), the buffer at address 1 is copied; both are unlocked once.
\<close>

theorem download_image_unlocks_once_witness:
  "download_image sample_formats sample_mp_image_h sample_cv (sample_image 2)
     = (None, [CVPixelBufferLockBaseAddress 2, CVPixelBufferUnlockBaseAddress 2]) \<and>
   unlocks_of (snd (download_image sample_formats sample_mp_image_h sample_cv (sample_image 1)))
     = [CVPixelBufferUnlockBaseAddress 1] \<and>
   locks_of (snd (download_image sample_formats sample_mp_image_h sample_cv (sample_image 1)))
     = [CVPixelBufferLockBaseAddress 1]"
proof -
  have tag: "mpi_imgfmt (sample_image r) = IMGFMT_VIDEOTOOLBOX sample_formats" for r
    by (simp add: sample_image_def)
  have unknown: "vt_get_gl_format sample_formats (pixel_format_type (sample_cv 2)) = None"
    by (simp add: sample_cv_def sample_buffer_def vt_get_gl_format_def vt_formats_def
        cvpixfmt_defs)
  show ?thesis
    using download_image_unlocks_once[of "sample_image 2" sample_formats sample_mp_image_h sample_cv]
      download_image_unlocks_once[of "sample_image 1" sample_formats sample_mp_image_h sample_cv]
      tag unknown
    by simp
qed

subsection \<open>The plane loop of \<^verbatim>\<open>map_frame\<close>\<close>

lemma map_frame_planes_stop:
  "\<not> int i < planes f \<Longrightarrow> map_frame_planes cgl p s f i out_frame t = (out_frame, t)"
  by (subst map_frame_planes.simps) simp

lemma map_frame_planes_step:
  "int i < planes f \<Longrightarrow>
   map_frame_planes cgl p s f i out_frame t =
     map_frame_planes cgl p s f (Suc i)
       (out_frame\<lparr>frame_planes := (frame_planes out_frame)[i := mapped_plane p s f i]\<rparr>)
       (t @ [BindTexture GL_TEXTURE_RECTANGLE (gl_planes p ! i),
             CGLTexImageIOSurface2D GL_TEXTURE_RECTANGLE (gl_internal_format (gl f ! i))
               (width_of_plane s i) (height_of_plane s i)
               (gl_format (gl f ! i)) (gl_type (gl f ! i)) i]
          @ (if plane_error cgl s f i \<noteq> kCGLNoError
             then [MP_ERR_plane i (plane_error cgl s f i)] else [])
          @ [BindTexture GL_TEXTURE_RECTANGLE 0])"
  by (subst map_frame_planes.simps) (simp add: Let_def mapped_plane_def plane_error_def)

lemma map_frame_planes_length:
  "length (frame_planes (fst (map_frame_planes cgl p s f i out_frame t)))
     = length (frame_planes out_frame)"
proof (induction "nat (planes f) - i" arbitrary: i out_frame t)
  case 0
  then have "\<not> int i < planes f" by linarith
  then show ?case by (simp add: map_frame_planes_stop)
next
  case (Suc k)
  then have lt: "int i < planes f" and k: "k = nat (planes f) - Suc i" by linarith+
  show ?case
    by (simp add: map_frame_planes_step[OF lt] Suc.hyps(1)[OF k])
qed

lemma map_frame_planes_nth:
  "j < length (frame_planes out_frame) \<Longrightarrow>
   frame_planes (fst (map_frame_planes cgl p s f i out_frame t)) ! j =
     (if i \<le> j \<and> int j < planes f then mapped_plane p s f j else frame_planes out_frame ! j)"
proof (induction "nat (planes f) - i" arbitrary: i out_frame t)
  case 0
  then have "\<not> int i < planes f" by linarith
  then show ?case by (auto simp: map_frame_planes_stop)
next
  case (Suc k)
  then have lt: "int i < planes f" and k: "k = nat (planes f) - Suc i" by linarith+
  let ?out1 = "out_frame\<lparr>frame_planes := (frame_planes out_frame)[i := mapped_plane p s f i]\<rparr>"
  have len: "j < length (frame_planes ?out1)"
    using Suc.prems by simp
  have "frame_planes (fst (map_frame_planes cgl p s f i out_frame t)) ! j =
        (if Suc i \<le> j \<and> int j < planes f then mapped_plane p s f j
         else frame_planes ?out1 ! j)"
    unfolding map_frame_planes_step[OF lt] by (rule Suc.hyps(1)[OF k len])
  also have "\<dots> = (if i \<le> j \<and> int j < planes f then mapped_plane p s f j
                     else frame_planes out_frame ! j)"
    using Suc.prems lt by (cases "j = i") auto
  finally show ?case .
qed

lemma tex_image_planes_append [simp]:
  "tex_image_planes (t @ u) = tex_image_planes t @ tex_image_planes u"
  by (simp add: tex_image_planes_def)

lemma references_of_append [simp]:
  "references_of (t @ u) = references_of t @ references_of u"
  by (simp add: references_of_def)

text \<open>The loop only appends events: one texture import per plane, no retain, no release.\<close>

lemma map_frame_planes_events:
  "\<exists>u. snd (map_frame_planes cgl p s f i out_frame t) = t @ u \<and>
       tex_image_planes u = [i..<nat (planes f)] \<and> references_of u = []"
proof (induction "nat (planes f) - i" arbitrary: i out_frame t)
  case 0
  then have "\<not> int i < planes f" by linarith
  then show ?case by (simp add: map_frame_planes_stop tex_image_planes_def references_of_def)
next
  case (Suc k)
  then have lt: "int i < planes f" and k: "k = nat (planes f) - Suc i" by linarith+
  from lt have upt: "[i..<nat (planes f)] = i # [Suc i..<nat (planes f)]"
    by (simp add: upt_conv_Cons)
  let ?body = "[BindTexture GL_TEXTURE_RECTANGLE (gl_planes p ! i),
                CGLTexImageIOSurface2D GL_TEXTURE_RECTANGLE (gl_internal_format (gl f ! i))
                  (width_of_plane s i) (height_of_plane s i)
                  (gl_format (gl f ! i)) (gl_type (gl f ! i)) i]
               @ (if plane_error cgl s f i \<noteq> kCGLNoError
                  then [MP_ERR_plane i (plane_error cgl s f i)] else [])
               @ [BindTexture GL_TEXTURE_RECTANGLE 0]"
  obtain u where u:
    "snd (map_frame_planes cgl p s f i out_frame t) = (t @ ?body) @ u"
    "tex_image_planes u = [Suc i..<nat (planes f)]" "references_of u = []"
    unfolding map_frame_planes_step[OF lt] using Suc.hyps(1)[OF k] by blast
  have "snd (map_frame_planes cgl p s f i out_frame t) = t @ (?body @ u)"
    using u(1) by simp
  moreover have "tex_image_planes (?body @ u) = [i..<nat (planes f)]"
    using u(2) upt by (simp add: tex_image_planes_def)
  moreover have "references_of (?body @ u) = []"
    using u(3) by (simp add: references_of_def)
  ultimately show ?case by blast
qed

lemma map_frame_planes_keeps_events:
  "set t \<subseteq> set (snd (map_frame_planes cgl p s f i out_frame t))"
  using map_frame_planes_events[of cgl p s f i out_frame t] by auto

text \<open>A plane whose import fails leaves its message in the log, and the loop goes on.\<close>

lemma map_frame_planes_logs:
  "i \<le> j \<Longrightarrow> int j < planes f \<Longrightarrow> plane_error cgl s f j \<noteq> kCGLNoError \<Longrightarrow>
   MP_ERR_plane j (plane_error cgl s f j)
     \<in> set (snd (map_frame_planes cgl p s f i out_frame t))"
proof (induction "nat (planes f) - i" arbitrary: i out_frame t)
  case 0
  then show ?case by linarith
next
  case (Suc k)
  then have lt: "int i < planes f" and k: "k = nat (planes f) - Suc i" by linarith+
  show ?case
  proof (cases "j = i")
    case True
    show ?thesis
      unfolding map_frame_planes_step[OF lt]
      using map_frame_planes_keeps_events Suc.prems(3) True
      by fastforce
  next
    case False
    with Suc.prems(1) have "Suc i \<le> j" by simp
    from Suc.hyps(1)[OF k this Suc.prems(2,3)] show ?thesis
      unfolding map_frame_planes_step[OF lt] .
  qed
qed

subsection \<open>The four ways out of \<^verbatim>\<open>map_frame\<close>\<close>

lemma map_frame_no_surface:
  "io_surface (cv (mpi_planes hw_image ! 3)) = None \<Longrightarrow>
   map_frame K cv cgl p hw_image out_frame =
     (Returned (- 1), p\<lparr>pbuf := mpi_planes hw_image ! 3\<rparr>, out_frame,
      [CVPixelBufferRelease (pbuf p), CVPixelBufferRetain (mpi_planes hw_image ! 3),
       MP_ERR ''CVPixelBuffer has no IOSurface''])"
  by (simp add: map_frame_def)

lemma map_frame_no_format:
  "io_surface (cv (mpi_planes hw_image ! 3)) = Some s \<Longrightarrow>
   vt_get_gl_format K (pixel_format_type (cv (mpi_planes hw_image ! 3))) = None \<Longrightarrow>
   map_frame K cv cgl p hw_image out_frame =
     (Returned (- 1), p\<lparr>pbuf := mpi_planes hw_image ! 3\<rparr>, out_frame,
      [CVPixelBufferRelease (pbuf p), CVPixelBufferRetain (mpi_planes hw_image ! 3),
       MP_ERR ''CVPixelBuffer has unsupported format type''])"
  by (simp add: map_frame_def)

lemma map_frame_assertion_failed:
  "io_surface (cv (mpi_planes hw_image ! 3)) = Some s \<Longrightarrow>
   vt_get_gl_format K (pixel_format_type (cv (mpi_planes hw_image ! 3))) = Some f \<Longrightarrow>
   \<not> map_frame_assertion (is_planar (cv (mpi_planes hw_image ! 3)))
        (int_of_size_t (plane_count (cv (mpi_planes hw_image ! 3)))) f \<Longrightarrow>
   map_frame K cv cgl p hw_image out_frame =
     (AssertionFailed, p\<lparr>pbuf := mpi_planes hw_image ! 3\<rparr>, out_frame,
      [CVPixelBufferRelease (pbuf p), CVPixelBufferRetain (mpi_planes hw_image ! 3)])"
  by (simp add: map_frame_def)

lemma map_frame_mapped:
  "io_surface (cv (mpi_planes hw_image ! 3)) = Some s \<Longrightarrow>
   vt_get_gl_format K (pixel_format_type (cv (mpi_planes hw_image ! 3))) = Some f \<Longrightarrow>
   map_frame_assertion (is_planar (cv (mpi_planes hw_image ! 3)))
        (int_of_size_t (plane_count (cv (mpi_planes hw_image ! 3)))) f \<Longrightarrow>
   map_frame K cv cgl p hw_image out_frame =
     (Returned 0, p\<lparr>pbuf := mpi_planes hw_image ! 3\<rparr>,
      map_frame_planes cgl (p\<lparr>pbuf := mpi_planes hw_image ! 3\<rparr>) s f 0 out_frame
        [CVPixelBufferRelease (pbuf p), CVPixelBufferRetain (mpi_planes hw_image ! 3)])"
  by (simp add: map_frame_def Let_def split: prod.splits)

lemma map_frame_cases:
  obtains
    (no_surface) "io_surface (cv (mpi_planes hw_image ! 3)) = None"
  | (no_format) s where "io_surface (cv (mpi_planes hw_image ! 3)) = Some s"
      "vt_get_gl_format K (pixel_format_type (cv (mpi_planes hw_image ! 3))) = None"
  | (assertion_failed) s f where "io_surface (cv (mpi_planes hw_image ! 3)) = Some s"
      "vt_get_gl_format K (pixel_format_type (cv (mpi_planes hw_image ! 3))) = Some f"
      "\<not> map_frame_assertion (is_planar (cv (mpi_planes hw_image ! 3)))
          (int_of_size_t (plane_count (cv (mpi_planes hw_image ! 3)))) f"
  | (mapped) s f where "io_surface (cv (mpi_planes hw_image ! 3)) = Some s"
      "vt_get_gl_format K (pixel_format_type (cv (mpi_planes hw_image ! 3))) = Some f"
      "map_frame_assertion (is_planar (cv (mpi_planes hw_image ! 3)))
          (int_of_size_t (plane_count (cv (mpi_planes hw_image ! 3)))) f"
  by (cases "io_surface (cv (mpi_planes hw_image ! 3))";
      cases "vt_get_gl_format K (pixel_format_type (cv (mpi_planes hw_image ! 3)))") auto

lemma mapped_plane_pbuf [simp]: "mapped_plane (p\<lparr>pbuf := b\<rparr>) s f i = mapped_plane p s f i"
  by (simp add: mapped_plane_def)

text \<open>What a call that reaches the loop returns, writes and logs, whatever CGL answers.\<close>

lemma map_frame_mapped_outcome:
  assumes "io_surface (cv (mpi_planes hw_image ! 3)) = Some s"
    and "vt_get_gl_format K (pixel_format_type (cv (mpi_planes hw_image ! 3))) = Some f"
    and "map_frame_assertion (is_planar (cv (mpi_planes hw_image ! 3)))
           (int_of_size_t (plane_count (cv (mpi_planes hw_image ! 3)))) f"
  shows "fst (map_frame K cv cgl p hw_image out_frame) = Returned 0"
  by (simp add: map_frame_mapped[where cv = cv and hw_image = hw_image, OF assms])

lemma map_frame_mapped_frame:
  assumes "io_surface (cv (mpi_planes hw_image ! 3)) = Some s"
    and "vt_get_gl_format K (pixel_format_type (cv (mpi_planes hw_image ! 3))) = Some f"
    and "map_frame_assertion (is_planar (cv (mpi_planes hw_image ! 3)))
           (int_of_size_t (plane_count (cv (mpi_planes hw_image ! 3)))) f"
  shows "length (frame_planes (fst (snd (snd (map_frame K cv cgl p hw_image out_frame)))))
           = length (frame_planes out_frame)"
    and "i < length (frame_planes out_frame) \<Longrightarrow>
         frame_planes (fst (snd (snd (map_frame K cv cgl p hw_image out_frame)))) ! i =
           (if int i < planes f then mapped_plane p s f i else frame_planes out_frame ! i)"
  by (simp_all add: map_frame_mapped[where cv = cv and hw_image = hw_image, OF assms]
      map_frame_planes_length map_frame_planes_nth)

lemma map_frame_mapped_events:
  assumes "io_surface (cv (mpi_planes hw_image ! 3)) = Some s"
    and "vt_get_gl_format K (pixel_format_type (cv (mpi_planes hw_image ! 3))) = Some f"
    and "map_frame_assertion (is_planar (cv (mpi_planes hw_image ! 3)))
           (int_of_size_t (plane_count (cv (mpi_planes hw_image ! 3)))) f"
  shows "tex_image_planes (snd (snd (snd (map_frame K cv cgl p hw_image out_frame))))
           = [0..<nat (planes f)]"
    and "int i < planes f \<Longrightarrow> plane_error cgl s f i \<noteq> kCGLNoError \<Longrightarrow>
         MP_ERR_plane i (plane_error cgl s f i)
           \<in> set (snd (snd (snd (map_frame K cv cgl p hw_image out_frame))))"
proof -
  let ?p1 = "p\<lparr>pbuf := mpi_planes hw_image ! 3\<rparr>"
  let ?t1 = "[CVPixelBufferRelease (pbuf p), CVPixelBufferRetain (mpi_planes hw_image ! 3)]"
  let ?loop = "map_frame_planes cgl ?p1 s f 0 out_frame ?t1"
  have t: "snd (snd (snd (map_frame K cv cgl p hw_image out_frame))) = snd ?loop"
    by (simp add: map_frame_mapped[where cv = cv and hw_image = hw_image, OF assms])
  obtain u where u: "snd ?loop = ?t1 @ u" "tex_image_planes u = [0..<nat (planes f)]"
    using map_frame_planes_events[of cgl ?p1 s f 0 out_frame ?t1] by blast
  show "tex_image_planes (snd (snd (snd (map_frame K cv cgl p hw_image out_frame))))
          = [0..<nat (planes f)]"
    unfolding t u(1) using u(2) by (simp add: tex_image_planes_def)
  show "MP_ERR_plane i (plane_error cgl s f i)
          \<in> set (snd (snd (snd (map_frame K cv cgl p hw_image out_frame))))"
    if "int i < planes f" "plane_error cgl s f i \<noteq> kCGLNoError"
    unfolding t using that by (simp add: map_frame_planes_logs)
qed

subsection \<open>Facts about the sample inputs\<close>

lemma sample_cv_1:
  "io_surface (sample_cv 1) = Some sample_surface"
  "pixel_format_type (sample_cv 1) = kCVPixelFormatType_420YpCbCr8BiPlanarVideoRange"
  "is_planar (sample_cv 1)"
  "plane_count (sample_cv 1) = 2"
  by (simp_all add: sample_cv_def sample_buffer_def)

lemma sample_cv_2:
  "io_surface (sample_cv 2) = Some sample_surface"
  "vt_get_gl_format sample_formats (pixel_format_type (sample_cv 2)) = None"
  by (simp_all add: sample_cv_def sample_buffer_def vt_get_gl_format_def vt_formats_def
      cvpixfmt_defs)

lemma sample_cv_3:
  "io_surface (sample_cv 3) = Some sample_surface"
  "vt_get_gl_format sample_formats (pixel_format_type (sample_cv 3))
     = Some (vt_formats sample_formats ! 3)"
  "is_planar (sample_cv 3)"
  "int_of_size_t (plane_count (sample_cv 3)) = 2"
  by (simp_all add: sample_cv_def sample_buffer_def vt_get_gl_format_def vt_formats_def
      cvpixfmt_defs int_of_size_t_def)

lemma sample_cv_4:
  "io_surface (sample_cv 4) = Some sample_surface"
  "vt_get_gl_format sample_formats (pixel_format_type (sample_cv 4))
     = Some (vt_formats sample_formats ! 0)"
  "\<not> is_planar (sample_cv 4)"
  "int_of_size_t (plane_count (sample_cv 4)) = 0"
  by (simp_all add: sample_cv_def sample_buffer_def vt_get_gl_format_def vt_formats_def
      cvpixfmt_defs int_of_size_t_def)

lemma sample_nv12_format:
  "vt_get_gl_format K kCVPixelFormatType_420YpCbCr8BiPlanarVideoRange = Some (vt_formats K ! 0)"
  "planes (vt_formats K ! 0) = 2"
  by (simp_all add: vt_get_gl_format_def vt_formats_def)

lemma map_frame_collapse:
  "map_frame K cv cgl p hw_image out_frame =
     (fst (map_frame K cv cgl p hw_image out_frame),
      fst (snd (map_frame K cv cgl p hw_image out_frame)),
      fst (snd (snd (map_frame K cv cgl p hw_image out_frame))),
      snd (snd (snd (map_frame K cv cgl p hw_image out_frame))))"
  by simp


subsection \<open>Error returns of \<^verbatim>\<open>map_frame\<close>\<close>

text \<open>
  Claim C10. Whenever \<^verbatim>\<open>map_frame\<close> does not return 0, the output frame it leaves is the
  one it was given: no plane entry is written. A buffer without a surface and a pixel
  format outside the table both make it return -1.
\<close>

theorem map_frame_error_keeps_out_frame:
  "(fst (map_frame K cv cgl p hw_image out_frame) \<noteq> Returned 0 \<longrightarrow>
      fst (snd (snd (map_frame K cv cgl p hw_image out_frame))) = out_frame) \<and>
   (io_surface (cv (mpi_planes hw_image ! 3)) = None \<longrightarrow>
      fst (map_frame K cv cgl p hw_image out_frame) = Returned (- 1)) \<and>
   (vt_get_gl_format K (pixel_format_type (cv (mpi_planes hw_image ! 3))) = None \<longrightarrow>
      fst (map_frame K cv cgl p hw_image out_frame) = Returned (- 1))"
proof (cases rule: map_frame_cases[where cv = cv and hw_image = hw_image and K = K])
  case no_surface
  then show ?thesis by (simp add: map_frame_no_surface)
next
  case (no_format s)
  then show ?thesis by (simp add: map_frame_no_format)
next
  case (assertion_failed s f)
  then show ?thesis by (simp add: map_frame_assertion_failed)
next
  case (mapped s f)
  then show ?thesis by (simp add: map_frame_mapped)
qed

text \<open>
  Claim C10 at sample frames: the buffer at address 7 has no surface, the buffer at
  address 2 has an unknown pixel format; both calls return -1 and leave the output frame.
\<close>

theorem map_frame_error_keeps_out_frame_witness:
  "io_surface (sample_cv 7) = None \<and>
   fst (map_frame sample_formats sample_cv sample_cgl sample_priv (sample_image 7)
          sample_out_frame) = Returned (- 1) \<and>
   fst (snd (snd (map_frame sample_formats sample_cv sample_cgl sample_priv (sample_image 7)
                    sample_out_frame))) = sample_out_frame \<and>
   vt_get_gl_format sample_formats (pixel_format_type (sample_cv 2)) = None \<and>
   fst (map_frame sample_formats sample_cv sample_cgl sample_priv (sample_image 2)
          sample_out_frame) = Returned (- 1) \<and>
   fst (snd (snd (map_frame sample_formats sample_cv sample_cgl sample_priv (sample_image 2)
                    sample_out_frame))) = sample_out_frame"
proof -
  have none: "io_surface (sample_cv 7) = None"
    by (simp add: sample_cv_def sample_buffer_def)
  show ?thesis
    using map_frame_error_keeps_out_frame[of sample_formats sample_cv sample_cgl sample_priv
        "sample_image 7" sample_out_frame]
      map_frame_error_keeps_out_frame[of sample_formats sample_cv sample_cgl sample_priv
        "sample_image 2" sample_out_frame]
      none sample_cv_2(2)
    by simp
qed

text \<open>
  Claim C3, as amended. When the pixel format of the frame's buffer is not in the format
  table, \<^verbatim>\<open>map_frame\<close> returns -1 and leaves the output frame as it was; the slot
  \<^verbatim>\<open>p->pbuf\<close> holds the new frame's buffer afterwards, whatever it held before and
  whether or not an earlier call succeeded: the call has released the old content of the
  slot and retained the new frame's buffer before it looks anything up. The log line is the
  unsupported-format one when the buffer has a surface.
\<close>

theorem map_frame_unknown_format_replaces_slot:
  assumes "vt_get_gl_format K (pixel_format_type (cv (mpi_planes hw_image ! 3))) = None"
  shows "map_frame K cv cgl p hw_image out_frame =
     (Returned (- 1), p\<lparr>pbuf := mpi_planes hw_image ! 3\<rparr>, out_frame,
      [CVPixelBufferRelease (pbuf p), CVPixelBufferRetain (mpi_planes hw_image ! 3),
       MP_ERR (if io_surface (cv (mpi_planes hw_image ! 3)) = None
               then ''CVPixelBuffer has no IOSurface''
               else ''CVPixelBuffer has unsupported format type'')])"
  using assms
  by (cases "io_surface (cv (mpi_planes hw_image ! 3))")
     (simp_all add: map_frame_no_surface map_frame_no_format)

text \<open>
  Claim C3, as amended, at a state in which the buffer at address 1 is mapped: the frame
  with the unknown format at address 2 is refused and its buffer replaces address 1.
\<close>

theorem map_frame_unknown_format_replaces_slot_witness:
  "vt_get_gl_format sample_formats (pixel_format_type (sample_cv (mpi_planes (sample_image 2) ! 3)))
     = None \<and>
   map_frame sample_formats sample_cv sample_cgl sample_priv_mapped (sample_image 2) sample_out_frame
     = (Returned (- 1), \<lparr>pbuf = 2, gl_planes = [1, 2, 3, 4]\<rparr>, sample_out_frame,
        [CVPixelBufferRelease 1, CVPixelBufferRetain 2,
         MP_ERR ''CVPixelBuffer has unsupported format type''])"
proof -
  have unknown: "vt_get_gl_format sample_formats
                   (pixel_format_type (sample_cv (mpi_planes (sample_image 2) ! 3))) = None"
    using sample_cv_2(2) by simp
  show ?thesis
    using map_frame_unknown_format_replaces_slot[where cv = sample_cv and hw_image = "sample_image 2",
        OF unknown, of sample_cgl sample_priv_mapped sample_out_frame]
      unknown sample_cv_2(1)
    by (simp add: sample_priv_mapped_def)
qed

text \<open>
  Claim C3 as stated fails on the first call: the slot is empty, no call has succeeded,
  the frame's pixel format is not in the table, the call returns -1, and the slot is no
  longer empty but holds the frame's buffer (address 2).
\<close>

theorem map_frame_unknown_format_counterexample:
  "pbuf sample_priv = NULL \<and>
   vt_get_gl_format sample_formats (pixel_format_type (sample_cv (mpi_planes (sample_image 2) ! 3)))
     = None \<and>
   fst (map_frame sample_formats sample_cv sample_cgl sample_priv (sample_image 2) sample_out_frame)
     = Returned (- 1) \<and>
   pbuf (fst (snd (map_frame sample_formats sample_cv sample_cgl sample_priv (sample_image 2)
                     sample_out_frame))) = 2 \<and>
   pbuf (fst (snd (map_frame sample_formats sample_cv sample_cgl sample_priv (sample_image 2)
                     sample_out_frame))) \<noteq> NULL"
  using sample_cv_2
  by (simp add: map_frame_def sample_priv_def NULL_def)

subsection \<open>The assertion of \<^verbatim>\<open>map_frame\<close>\<close>

text \<open>
  Claim C2, as amended. Once the buffer has a surface and its pixel format is found in the
  table, \<^verbatim>\<open>map_frame\<close> stops in the failed assertion exactly when neither of these holds:
  the plane-count condition as the specification words it (planar and the entry's plane
  count equals the reported one, or non-planar and the entry's plane count is 1), or the
  buffer is planar and the entry's plane count is 1. So a planar buffer whose entry has one
  plane passes whatever plane count it reports.
\<close>

theorem map_frame_assertion_exact:
  assumes "io_surface (cv (mpi_planes hw_image ! 3)) = Some s"
    and "vt_get_gl_format K (pixel_format_type (cv (mpi_planes hw_image ! 3))) = Some f"
  shows "(fst (map_frame K cv cgl p hw_image out_frame) = AssertionFailed) =
           (\<not> (spec_plane_count_consistent (is_planar (cv (mpi_planes hw_image ! 3)))
                  (int_of_size_t (plane_count (cv (mpi_planes hw_image ! 3)))) f \<or>
                is_planar (cv (mpi_planes hw_image ! 3)) \<and> planes f = 1))"
proof (cases "map_frame_assertion (is_planar (cv (mpi_planes hw_image ! 3)))
                (int_of_size_t (plane_count (cv (mpi_planes hw_image ! 3)))) f")
  case True
  then show ?thesis
    using map_frame_mapped[where cv = cv and hw_image = hw_image, OF assms True, of cgl p out_frame]
    by (auto simp: map_frame_assertion_def spec_plane_count_consistent_def)
next
  case False
  then show ?thesis
    using map_frame_assertion_failed[where cv = cv and hw_image = hw_image, OF assms False,
        of cgl p out_frame]
    by (auto simp: map_frame_assertion_def spec_plane_count_consistent_def)
qed

text \<open>
  Claim C2, as amended, at the buffer of address 4: tagged bi-planar (two planes in the
  table) but reporting itself non-planar, it fails the assertion.
\<close>

theorem map_frame_assertion_exact_witness:
  "io_surface (sample_cv (mpi_planes (sample_image 4) ! 3)) = Some sample_surface \<and>
   vt_get_gl_format sample_formats (pixel_format_type (sample_cv (mpi_planes (sample_image 4) ! 3)))
     = Some (vt_formats sample_formats ! 0) \<and>
   fst (map_frame sample_formats sample_cv sample_cgl sample_priv (sample_image 4) sample_out_frame)
     = AssertionFailed"
proof -
  have surface: "io_surface (sample_cv (mpi_planes (sample_image 4) ! 3)) = Some sample_surface"
    using sample_cv_4(1) by simp
  have found: "vt_get_gl_format sample_formats
                 (pixel_format_type (sample_cv (mpi_planes (sample_image 4) ! 3)))
                 = Some (vt_formats sample_formats ! 0)"
    using sample_cv_4(2) by simp
  show ?thesis
    using map_frame_assertion_exact[where cv = sample_cv and hw_image = "sample_image 4",
        OF surface found, of sample_cgl sample_priv sample_out_frame]
      surface found sample_cv_4(3,4) sample_nv12_format(2)[of sample_formats]
    by (simp add: spec_plane_count_consistent_def)
qed

text \<open>
  Claim C2 as stated fails at the buffer of address 3: it is planar and reports two planes,
  its pixel format resolves to the BGRA entry with one plane, so the condition as the
  specification words it is false; yet the assertion passes and the call returns 0.
\<close>

theorem map_frame_assertion_counterexample:
  "is_planar (sample_cv (mpi_planes (sample_image 3) ! 3)) \<and>
   int_of_size_t (plane_count (sample_cv (mpi_planes (sample_image 3) ! 3))) = 2 \<and>
   vt_get_gl_format sample_formats (pixel_format_type (sample_cv (mpi_planes (sample_image 3) ! 3)))
     = Some (vt_formats sample_formats ! 3) \<and>
   planes (vt_formats sample_formats ! 3) = 1 \<and>
   \<not> spec_plane_count_consistent (is_planar (sample_cv (mpi_planes (sample_image 3) ! 3)))
        (int_of_size_t (plane_count (sample_cv (mpi_planes (sample_image 3) ! 3))))
        (vt_formats sample_formats ! 3) \<and>
   fst (map_frame sample_formats sample_cv sample_cgl sample_priv (sample_image 3) sample_out_frame)
     = Returned 0"
proof -
  have one: "planes (vt_formats sample_formats ! 3) = 1"
    by (simp add: vt_formats_def)
  have pass: "map_frame_assertion (is_planar (sample_cv 3))
                (int_of_size_t (plane_count (sample_cv 3))) (vt_formats sample_formats ! 3)"
    by (simp add: map_frame_assertion_def one)
  have "fst (map_frame sample_formats sample_cv sample_cgl sample_priv (sample_image 3)
               sample_out_frame) = Returned 0"
    using map_frame_mapped[of sample_cv "sample_image 3" sample_surface sample_formats
        "vt_formats sample_formats ! 3" sample_cgl sample_priv sample_out_frame]
      sample_cv_3 pass
    by simp
  then show ?thesis
    using sample_cv_3 one by (simp add: spec_plane_count_consistent_def)
qed

subsection \<open>The planes written by \<^verbatim>\<open>map_frame\<close>\<close>

text \<open>
  Claim C7. Once \<^verbatim>\<open>map_frame\<close> reaches the loop over the planes (the buffer has a surface,
  its pixel format is in the table, the assertion holds), the call returns 0 whatever
  \<^verbatim>\<open>CGLTexImageIOSurface2D\<close> answers for any plane: the import is issued for every plane
  \<open>0, \<dots>, f->planes - 1\<close> in order, every output entry below \<^verbatim>\<open>f->planes\<close> is written
  with its texture, target, surface dimensions and swizzle, and the entries from
  \<^verbatim>\<open>f->planes\<close> on are left as they were. A plane whose import fails has its error
  message in the log.
\<close>

theorem map_frame_plane_errors_do_not_abort:
  assumes "io_surface (cv (mpi_planes hw_image ! 3)) = Some s"
    and "vt_get_gl_format K (pixel_format_type (cv (mpi_planes hw_image ! 3))) = Some f"
    and "map_frame_assertion (is_planar (cv (mpi_planes hw_image ! 3)))
           (int_of_size_t (plane_count (cv (mpi_planes hw_image ! 3)))) f"
    and "length (frame_planes out_frame) = 4"
    and "map_frame K cv cgl p hw_image out_frame = (r, p', out', t)"
  shows "r = Returned 0 \<and>
         tex_image_planes t = [0..<nat (planes f)] \<and>
         length (frame_planes out') = 4 \<and>
         (\<forall>i. int i < planes f \<longrightarrow> frame_planes out' ! i = mapped_plane p s f i) \<and>
         (\<forall>i. i < 4 \<and> \<not> int i < planes f \<longrightarrow> frame_planes out' ! i = frame_planes out_frame ! i) \<and>
         (\<forall>i. int i < planes f \<and> plane_error cgl s f i \<noteq> kCGLNoError \<longrightarrow>
              MP_ERR_plane i (plane_error cgl s f i) \<in> set t)"
proof -
  note reached = assms(1,2,3)
  from assms(5) have r: "r = fst (map_frame K cv cgl p hw_image out_frame)"
    and out': "out' = fst (snd (snd (map_frame K cv cgl p hw_image out_frame)))"
    and t: "t = snd (snd (snd (map_frame K cv cgl p hw_image out_frame)))"
    by simp_all
  have returned: "r = Returned 0"
    unfolding r by (rule map_frame_mapped_outcome[where cv = cv and hw_image = hw_image, OF reached])
  have imported: "tex_image_planes t = [0..<nat (planes f)]"
    unfolding t by (rule map_frame_mapped_events(1)[where cv = cv and hw_image = hw_image, OF reached])
  have len: "length (frame_planes out') = 4"
    unfolding out' using assms(4)
    by (simp add: map_frame_mapped_frame(1)[where cv = cv and hw_image = hw_image, OF reached])
  have entry: "frame_planes out' ! i =
                 (if int i < planes f then mapped_plane p s f i else frame_planes out_frame ! i)"
    if "i < 4" for i
    unfolding out' using that assms(4)
    by (simp add: map_frame_mapped_frame(2)[where cv = cv and hw_image = hw_image, OF reached])
  have bound: "planes f \<le> 3"
    using vt_get_gl_format_planes[OF assms(2)] by simp
  have written: "frame_planes out' ! i = mapped_plane p s f i" if "int i < planes f" for i
  proof -
    from that bound have "i < 4" by linarith
    from entry[OF this] that show ?thesis by simp
  qed
  have logged: "MP_ERR_plane i (plane_error cgl s f i) \<in> set t"
    if "int i < planes f" "plane_error cgl s f i \<noteq> kCGLNoError" for i
    unfolding t using that
    by (rule map_frame_mapped_events(2)[where cv = cv and hw_image = hw_image, OF reached])
  show ?thesis using returned imported len written entry logged by simp
qed

text \<open>
  Claim C7 at the bi-planar sample buffer with a CGL that fails on plane 0: the call
  returns 0, both planes are imported, and plane 1 has the surface's dimensions.
\<close>

theorem map_frame_plane_errors_do_not_abort_witness:
  "plane_error sample_cgl sample_surface (vt_formats sample_formats ! 0) 0 = 10000 \<and>
   MP_ERR_plane 0 10000
     \<in> set (snd (snd (snd (map_frame sample_formats sample_cv sample_cgl sample_priv
                              (sample_image 1) sample_out_frame)))) \<and>
   fst (map_frame sample_formats sample_cv sample_cgl sample_priv (sample_image 1)
          sample_out_frame) = Returned 0 \<and>
   tex_image_planes (snd (snd (snd (map_frame sample_formats sample_cv sample_cgl sample_priv
                                      (sample_image 1) sample_out_frame)))) = [0, 1] \<and>
   tex_w (frame_planes (fst (snd (snd (map_frame sample_formats sample_cv sample_cgl sample_priv
                                         (sample_image 1) sample_out_frame)))) ! 1) = 960 \<and>
   tex_h (frame_planes (fst (snd (snd (map_frame sample_formats sample_cv sample_cgl sample_priv
                                         (sample_image 1) sample_out_frame)))) ! 1) = 540"
proof -
  have fails: "plane_error sample_cgl sample_surface (vt_formats sample_formats ! 0) 0 = 10000"
    "(10000 :: CGLError) \<noteq> kCGLNoError"
    by (simp_all add: plane_error_def sample_cgl_def kCGLNoError_def)
  have first: "int 0 < planes (vt_formats sample_formats ! 0)"
    using sample_nv12_format(2)[of sample_formats] by simp
  have surface: "io_surface (sample_cv (mpi_planes (sample_image 1) ! 3)) = Some sample_surface"
    using sample_cv_1(1) by simp
  have found: "vt_get_gl_format sample_formats
                 (pixel_format_type (sample_cv (mpi_planes (sample_image 1) ! 3)))
                 = Some (vt_formats sample_formats ! 0)"
    using sample_cv_1(2) sample_nv12_format(1) by simp
  have pass: "map_frame_assertion (is_planar (sample_cv (mpi_planes (sample_image 1) ! 3)))
                (int_of_size_t (plane_count (sample_cv (mpi_planes (sample_image 1) ! 3))))
                (vt_formats sample_formats ! 0)"
    using sample_cv_1(3,4) sample_nv12_format(2)[of sample_formats]
    by (simp add: map_frame_assertion_def int_of_size_t_def)
  have len: "length (frame_planes sample_out_frame) = 4"
    by (simp add: sample_out_frame_def)
  have two: "[0..<nat (planes (vt_formats sample_formats ! 0))] = [0, 1]"
    using sample_nv12_format(2)[of sample_formats] by (simp add: upt_rec)
  have dims: "tex_w (mapped_plane sample_priv sample_surface (vt_formats sample_formats ! 0) 1) = 960"
    "tex_h (mapped_plane sample_priv sample_surface (vt_formats sample_formats ! 0) 1) = 540"
    by (simp_all add: mapped_plane_def sample_surface_def)
  have second: "int 1 < planes (vt_formats sample_formats ! 0)"
    using sample_nv12_format(2)[of sample_formats] by simp
  note run = map_frame_plane_errors_do_not_abort[where cv = sample_cv
      and hw_image = "sample_image 1" and cgl = sample_cgl and p = sample_priv,
      OF surface found pass len map_frame_collapse]
  from run first fails have logged: "MP_ERR_plane 0 10000
     \<in> set (snd (snd (snd (map_frame sample_formats sample_cv sample_cgl sample_priv
                              (sample_image 1) sample_out_frame))))"
    by metis
  from run second have "frame_planes (fst (snd (snd (map_frame sample_formats sample_cv sample_cgl
                          sample_priv (sample_image 1) sample_out_frame)))) ! 1
                        = mapped_plane sample_priv sample_surface (vt_formats sample_formats ! 0) 1"
    by blast
  then show ?thesis
    using run fails(1) logged two dims by simp
qed

text \<open>
  Claim C8. The table entry found for the bi-planar 4:2:0 video-range pixel format has 2
  planes. Read field by field, plane 0 has \<^verbatim>\<open>gl_format\<close> \<^verbatim>\<open>GL_RED\<close> (0x1903, one
  channel) and \<^verbatim>\<open>gl_type\<close> \<^verbatim>\<open>GL_UNSIGNED_BYTE\<close> (0x1401), plane 1 has \<^verbatim>\<open>gl_format\<close>
  \<^verbatim>\<open>GL_RG\<close> (0x8227, two channels) and \<^verbatim>\<open>gl_type\<close> \<^verbatim>\<open>GL_UNSIGNED_BYTE\<close>; the internal
  formats are \<^verbatim>\<open>GL_RED\<close> and \<^verbatim>\<open>GL_RG\<close> and both swizzles are empty. Mapping a planar
  buffer with 2 planes, a surface and this pixel format returns 0 and writes exactly the
  output entries 0 and 1, whose width and height are those of planes 0 and 1 of the
  surface; entries 2 and 3 are left as they were.
\<close>

theorem biplanar_video_range_import:
  assumes "io_surface (cv (mpi_planes hw_image ! 3)) = Some s"
    and "pixel_format_type (cv (mpi_planes hw_image ! 3))
           = kCVPixelFormatType_420YpCbCr8BiPlanarVideoRange"
    and "is_planar (cv (mpi_planes hw_image ! 3))"
    and "plane_count (cv (mpi_planes hw_image ! 3)) = 2"
    and "length (frame_planes out_frame) = 4"
  shows "vt_get_gl_format K kCVPixelFormatType_420YpCbCr8BiPlanarVideoRange
           = Some (vt_formats K ! 0) \<and>
         cvpixfmt (vt_formats K ! 0) = 0x34323076 \<and>
         planes (vt_formats K ! 0) = 2 \<and>
         gl_format (gl (vt_formats K ! 0) ! 0) = 0x1903 \<and>
         gl_type (gl (vt_formats K ! 0) ! 0) = 0x1401 \<and>
         gl_internal_format (gl (vt_formats K ! 0) ! 0) = 0x1903 \<and>
         swizzle (gl (vt_formats K ! 0) ! 0) = '''' \<and>
         gl_format (gl (vt_formats K ! 0) ! 1) = 0x8227 \<and>
         gl_type (gl (vt_formats K ! 0) ! 1) = 0x1401 \<and>
         gl_internal_format (gl (vt_formats K ! 0) ! 1) = 0x8227 \<and>
         swizzle (gl (vt_formats K ! 0) ! 1) = '''' \<and>
         GL_RED = 0x1903 \<and> GL_RG = 0x8227 \<and> GL_UNSIGNED_BYTE = 0x1401 \<and>
         fst (map_frame K cv cgl p hw_image out_frame) = Returned 0 \<and>
         frame_planes (fst (snd (snd (map_frame K cv cgl p hw_image out_frame)))) =
           [\<lparr>gl_texture = gl_planes p ! 0, gl_target = GL_TEXTURE_RECTANGLE,
             tex_w = width_of_plane s 0, tex_h = height_of_plane s 0, plane_swizzle = ''''\<rparr>,
            \<lparr>gl_texture = gl_planes p ! 1, gl_target = GL_TEXTURE_RECTANGLE,
             tex_w = width_of_plane s 1, tex_h = height_of_plane s 1, plane_swizzle = ''''\<rparr>,
            frame_planes out_frame ! 2,
            frame_planes out_frame ! 3]"
proof -
  let ?f = "vt_formats K ! 0"
  let ?out' = "fst (snd (snd (map_frame K cv cgl p hw_image out_frame)))"
  note f = sample_nv12_format(1)[of K] and pl = sample_nv12_format(2)[of K]
  have id: "cvpixfmt ?f = 0x34323076"
    by (simp add: vt_formats_def kCVPixelFormatType_420YpCbCr8BiPlanarVideoRange_def)
  have enums: "GL_RED = 0x1903" "GL_RG = 0x8227" "GL_UNSIGNED_BYTE = 0x1401"
    by (simp_all add: GL_RED_def GL_RG_def GL_UNSIGNED_BYTE_def)
  have luma: "gl_format (gl ?f ! 0) = 0x1903" "gl_type (gl ?f ! 0) = 0x1401"
    "gl_internal_format (gl ?f ! 0) = 0x1903" "swizzle (gl ?f ! 0) = ''''"
    by (simp_all add: vt_formats_def plane_format_def GL_RED_def GL_UNSIGNED_BYTE_def)
  have chroma: "gl_format (gl ?f ! 1) = 0x8227" "gl_type (gl ?f ! 1) = 0x1401"
    "gl_internal_format (gl ?f ! 1) = 0x8227" "swizzle (gl ?f ! 1) = ''''"
    by (simp_all add: vt_formats_def plane_format_def GL_RG_def GL_UNSIGNED_BYTE_def)
  have fmt: "vt_get_gl_format K (pixel_format_type (cv (mpi_planes hw_image ! 3))) = Some ?f"
    using f assms(2) by simp
  have pass: "map_frame_assertion (is_planar (cv (mpi_planes hw_image ! 3)))
              (int_of_size_t (plane_count (cv (mpi_planes hw_image ! 3)))) ?f"
    using assms(3,4) pl by (simp add: map_frame_assertion_def int_of_size_t_def)
  note reached = assms(1) fmt pass
  have r: "fst (map_frame K cv cgl p hw_image out_frame) = Returned 0"
    by (rule map_frame_mapped_outcome[where cv = cv and hw_image = hw_image, OF reached])
  have len: "length (frame_planes ?out') = 4"
    using assms(5)
    by (simp add: map_frame_mapped_frame(1)[where cv = cv and hw_image = hw_image, OF reached])
  have entry: "frame_planes ?out' ! i =
                 (if int i < 2 then mapped_plane p s ?f i else frame_planes out_frame ! i)"
    if "i < 4" for i
    using that assms(5) pl
    by (simp add: map_frame_mapped_frame(2)[where cv = cv and hw_image = hw_image, OF reached])
  have e0: "frame_planes ?out' ! 0 = \<lparr>gl_texture = gl_planes p ! 0, gl_target = GL_TEXTURE_RECTANGLE,
             tex_w = width_of_plane s 0, tex_h = height_of_plane s 0, plane_swizzle = ''''\<rparr>"
    using entry[of 0] luma(4) by (simp add: mapped_plane_def snprintf_s_def)
  have e1: "frame_planes ?out' ! 1 = \<lparr>gl_texture = gl_planes p ! 1, gl_target = GL_TEXTURE_RECTANGLE,
             tex_w = width_of_plane s 1, tex_h = height_of_plane s 1, plane_swizzle = ''''\<rparr>"
    using entry[of 1] chroma(4) by (simp add: mapped_plane_def snprintf_s_def)
  have e2: "frame_planes ?out' ! 2 = frame_planes out_frame ! 2" using entry[of 2] by simp
  have e3: "frame_planes ?out' ! 3 = frame_planes out_frame ! 3" using entry[of 3] by simp
  have "frame_planes ?out' = [frame_planes ?out' ! 0, frame_planes ?out' ! 1,
                              frame_planes ?out' ! 2, frame_planes ?out' ! 3]"
    using len by (auto simp: list_eq_iff_nth_eq less_Suc_eq numeral_eq_Suc)
  then have planes_written:
    "frame_planes ?out' = [\<lparr>gl_texture = gl_planes p ! 0, gl_target = GL_TEXTURE_RECTANGLE,
             tex_w = width_of_plane s 0, tex_h = height_of_plane s 0, plane_swizzle = ''''\<rparr>,
            \<lparr>gl_texture = gl_planes p ! 1, gl_target = GL_TEXTURE_RECTANGLE,
             tex_w = width_of_plane s 1, tex_h = height_of_plane s 1, plane_swizzle = ''''\<rparr>,
            frame_planes out_frame ! 2,
            frame_planes out_frame ! 3]"
    using e0 e1 e2 e3 by simp
  show ?thesis
    using f id pl luma chroma enums r planes_written by (intro conjI)
qed

text \<open>
  Claim C8 at the bi-planar sample buffer, whose surface is 1920 by 1080 with a 960 by 540
  second plane: the entry found has 2 planes with the layouts above, two output entries are
  written with texture names 1 and 2 on the rectangle target (0x84F5), the other two stay.
\<close>

theorem biplanar_video_range_import_witness:
  "io_surface (sample_cv (mpi_planes (sample_image 1) ! 3)) = Some sample_surface \<and>
   pixel_format_type (sample_cv (mpi_planes (sample_image 1) ! 3)) = 0x34323076 \<and>
   plane_count (sample_cv (mpi_planes (sample_image 1) ! 3)) = 2 \<and>
   vt_get_gl_format sample_formats 0x34323076 = Some (vt_formats sample_formats ! 0) \<and>
   planes (vt_formats sample_formats ! 0) = 2 \<and>
   gl_format (gl (vt_formats sample_formats ! 0) ! 0) = 0x1903 \<and>
   gl_type (gl (vt_formats sample_formats ! 0) ! 0) = 0x1401 \<and>
   gl_format (gl (vt_formats sample_formats ! 0) ! 1) = 0x8227 \<and>
   gl_type (gl (vt_formats sample_formats ! 0) ! 1) = 0x1401 \<and>
   fst (map_frame sample_formats sample_cv sample_cgl sample_priv (sample_image 1)
          sample_out_frame) = Returned 0 \<and>
   frame_planes (fst (snd (snd (map_frame sample_formats sample_cv sample_cgl sample_priv
                                  (sample_image 1) sample_out_frame)))) =
     [\<lparr>gl_texture = 1, gl_target = 0x84F5, tex_w = 1920, tex_h = 1080,
       plane_swizzle = ''''\<rparr>,
      \<lparr>gl_texture = 2, gl_target = 0x84F5, tex_w = 960, tex_h = 540,
       plane_swizzle = ''''\<rparr>,
      \<lparr>gl_texture = 0, gl_target = 0, tex_w = 0, tex_h = 0, plane_swizzle = ''''\<rparr>,
      \<lparr>gl_texture = 0, gl_target = 0, tex_w = 0, tex_h = 0, plane_swizzle = ''''\<rparr>]"
proof -
  have surface: "io_surface (sample_cv (mpi_planes (sample_image 1) ! 3)) = Some sample_surface"
    and tagged: "pixel_format_type (sample_cv (mpi_planes (sample_image 1) ! 3))
                   = kCVPixelFormatType_420YpCbCr8BiPlanarVideoRange"
    and planar: "is_planar (sample_cv (mpi_planes (sample_image 1) ! 3))"
    and two: "plane_count (sample_cv (mpi_planes (sample_image 1) ! 3)) = 2"
    using sample_cv_1 by simp_all
  have len: "length (frame_planes sample_out_frame) = 4"
    by (simp add: sample_out_frame_def)
  have code: "kCVPixelFormatType_420YpCbCr8BiPlanarVideoRange = 0x34323076"
    by (simp add: kCVPixelFormatType_420YpCbCr8BiPlanarVideoRange_def)
  from biplanar_video_range_import[where cv = sample_cv and hw_image = "sample_image 1",
      OF surface tagged planar two len, of sample_formats sample_cgl sample_priv]
  show ?thesis
    using surface two tagged code
    by (simp add: sample_priv_def sample_surface_def sample_out_frame_def sample_plane_def
        GL_TEXTURE_RECTANGLE_def)
qed

subsection \<open>The retained buffer across calls of \<^verbatim>\<open>map_frame\<close>\<close>

lemma owned_after_append:
  "owned_after (t @ u) h = (case owned_after t h of None \<Rightarrow> None | Some h' \<Rightarrow> owned_after u h')"
  by (induction t arbitrary: h) (auto split: option.splits)

lemma owned_after_no_references:
  "references_of u = [] \<Longrightarrow> owned_after u h = Some h"
proof (induction u arbitrary: h)
  case Nil
  then show ?case by simp
next
  case (Cons e u)
  then show ?case by (cases e) (auto simp: references_of_def split: if_splits)
qed

lemma owned_after_swap:
  "owned_after [CVPixelBufferRelease (pbuf p), CVPixelBufferRetain b] (slot_reference p)
     = Some (slot_reference (p\<lparr>pbuf := b\<rparr>))"
  by (simp add: slot_reference_def)

lemma map_frame_references:
  "\<exists>u. map_frame K cv cgl p hw_image out_frame =
          (fst (map_frame K cv cgl p hw_image out_frame),
           p\<lparr>pbuf := mpi_planes hw_image ! 3\<rparr>,
           fst (snd (snd (map_frame K cv cgl p hw_image out_frame))),
           [CVPixelBufferRelease (pbuf p), CVPixelBufferRetain (mpi_planes hw_image ! 3)] @ u) \<and>
        references_of u = []"
proof (cases rule: map_frame_cases[where cv = cv and hw_image = hw_image and K = K])
  case no_surface
  then show ?thesis by (simp add: map_frame_no_surface references_of_def)
next
  case (no_format s)
  then show ?thesis by (simp add: map_frame_no_format references_of_def)
next
  case (assertion_failed s f)
  then show ?thesis by (simp add: map_frame_assertion_failed references_of_def)
next
  case (mapped s f)
  let ?p1 = "p\<lparr>pbuf := mpi_planes hw_image ! 3\<rparr>"
  let ?t1 = "[CVPixelBufferRelease (pbuf p), CVPixelBufferRetain (mpi_planes hw_image ! 3)]"
  obtain u where u: "snd (map_frame_planes cgl ?p1 s f 0 out_frame ?t1) = ?t1 @ u"
    "references_of u = []"
    using map_frame_planes_events[of cgl ?p1 s f 0 out_frame ?t1] by blast
  have "map_frame K cv cgl p hw_image out_frame =
          (Returned 0, ?p1, fst (map_frame_planes cgl ?p1 s f 0 out_frame ?t1), ?t1 @ u)"
    using map_frame_mapped[where cv = cv and hw_image = hw_image, OF mapped, of cgl p out_frame] u(1)
    by (metis prod.collapse)
  then show ?thesis using u(2) by auto
qed

text \<open>
  One call: the slot holds the frame's buffer afterwards, the only retain and release
  calls are the release of the old slot content followed by the retain of the new one, and
  a component that owned the reference of its slot before owns the reference of its slot
  after.
\<close>

lemma map_frame_call_references:
  assumes "map_frame K cv cgl p hw_image out_frame = (r, p', out', t)"
  shows "p' = p\<lparr>pbuf := mpi_planes hw_image ! 3\<rparr> \<and>
         references_of t =
           [CVPixelBufferRelease (pbuf p), CVPixelBufferRetain (mpi_planes hw_image ! 3)] \<and>
         owned_after t (slot_reference p) = Some (slot_reference p')"
proof -
  obtain u where u: "p' = p\<lparr>pbuf := mpi_planes hw_image ! 3\<rparr>"
    "t = [CVPixelBufferRelease (pbuf p), CVPixelBufferRetain (mpi_planes hw_image ! 3)] @ u"
    "references_of u = []"
    using map_frame_references[of K cv cgl p hw_image out_frame] assms by auto
  have "references_of t =
          [CVPixelBufferRelease (pbuf p), CVPixelBufferRetain (mpi_planes hw_image ! 3)]"
    unfolding u(2) references_of_append using u(3) by (simp add: references_of_def)
  moreover have "owned_after t (slot_reference p) = Some (slot_reference p')"
    unfolding u(1,2) owned_after_append owned_after_swap
    using owned_after_no_references[OF u(3)] by simp
  ultimately show ?thesis using u(1) by simp
qed

lemma map_frames_invariant:
  assumes "map_frames K cs p out_frame = (rs, p', out', t)"
  shows "owned_after t (slot_reference p) = Some (slot_reference p') \<and>
         length rs \<le> length cs \<and>
         (cs \<noteq> [] \<longrightarrow> rs \<noteq> [] \<and>
            pbuf p' = mpi_planes (call_image (cs ! (length rs - 1))) ! 3)"
  using assms
proof (induction cs arbitrary: p out_frame rs p' out' t)
  case Nil
  then show ?case by simp
next
  case (Cons c cs)
  obtain r p1 out1 t1 where
    m: "map_frame K (call_cv c) (call_cgl c) p (call_image c) out_frame = (r, p1, out1, t1)"
    by (cases "map_frame K (call_cv c) (call_cgl c) p (call_image c) out_frame") auto
  note call = map_frame_call_references[OF m]
  show ?case
  proof (cases "r = AssertionFailed")
    case True
    with Cons.prems m have "rs = [r]" "p' = p1" "t = t1" by simp_all
    with call show ?thesis by simp
  next
    case False
    obtain rs2 p2 out2 t2 where rest: "map_frames K cs p1 out1 = (rs2, p2, out2, t2)"
      by (cases "map_frames K cs p1 out1") auto
    from Cons.prems m False rest have eq: "rs = r # rs2" "p' = p2" "t = t1 @ t2"
      by simp_all
    note ih = Cons.IH[OF rest]
    have own: "owned_after t (slot_reference p) = Some (slot_reference p')"
      unfolding eq owned_after_append using call ih by simp
    have newest: "pbuf p' = mpi_planes (call_image ((c # cs) ! (length rs - 1))) ! 3"
    proof (cases cs)
      case Nil
      with rest have "rs2 = []" "p2 = p1" by simp_all
      with eq call show ?thesis by simp
    next
      case (Cons c' cs')
      with ih have "rs2 \<noteq> []" "pbuf p2 = mpi_planes (call_image (cs ! (length rs2 - 1))) ! 3"
        by simp_all
      then show ?thesis using eq by (cases rs2) simp_all
    qed
    show ?thesis using own newest eq ih by simp
  qed
qed

lemma sample_run:
  "fst (map_frames sample_formats [sample_call 1, sample_call 2, sample_call 1]
          sample_priv sample_out_frame) = [Returned 0, Returned (- 1), Returned 0]"
  by (simp add: map_frame_def Let_def sample_call_def sample_cv_def sample_buffer_def
      vt_get_gl_format_def vt_formats_def cvpixfmt_defs map_frame_assertion_def int_of_size_t_def
      split: prod.splits)

lemma map_frames_collapse:
  "map_frames K cs p out_frame =
     (fst (map_frames K cs p out_frame),
      fst (snd (map_frames K cs p out_frame)),
      fst (snd (snd (map_frames K cs p out_frame))),
      snd (snd (snd (map_frames K cs p out_frame))))"
  by simp

text \<open>
  Claim C4. Take any non-empty sequence of \<^verbatim>\<open>map_frame\<close> calls on one \<^verbatim>\<open>struct priv\<close>,
  each with a frame whose buffer is not \<^verbatim>\<open>NULL\<close>, started in a state where the component
  owns the reference of its slot and nothing else (none for the empty slot that
  construction leaves). After the calls that ran, no release was ever made of a buffer the
  component did not own, and the component owns exactly one reference: to the buffer of the
  newest frame, which is what the slot holds. Since this holds for every sequence, it
  holds after every prefix, that is, between any two calls. Within each call the only
  retain and release calls are one release of the slot's old content followed by one retain
  of the new frame's buffer; a buffer is thus released only by the call that replaces it,
  never earlier. \<^verbatim>\<open>destroy\<close> then releases the one reference and the component owns none.
\<close>

theorem map_frames_one_reference:
  assumes "\<forall>c \<in> set cs. mpi_planes (call_image c) ! 3 \<noteq> NULL"
    and "cs \<noteq> []"
    and "map_frames K cs p out_frame = (rs, p', out', t)"
  shows "owned_after t (slot_reference p) = Some {#pbuf p'#} \<and>
         rs \<noteq> [] \<and> length rs \<le> length cs \<and>
         pbuf p' = mpi_planes (call_image (cs ! (length rs - 1))) ! 3 \<and>
         (\<forall>c p0 out0.
            references_of (snd (snd (snd
              (map_frame K (call_cv c) (call_cgl c) p0 (call_image c) out0)))) =
            [CVPixelBufferRelease (pbuf p0), CVPixelBufferRetain (mpi_planes (call_image c) ! 3)]) \<and>
         owned_after (t @ destroy p') (slot_reference p) = Some {#}"
proof -
  note inv = map_frames_invariant[OF assms(3)]
  from inv assms(2) have rs: "rs \<noteq> []" "length rs \<le> length cs"
    and newest: "pbuf p' = mpi_planes (call_image (cs ! (length rs - 1))) ! 3"
    by simp_all
  from rs have "length rs - 1 < length cs" by (cases rs) auto
  then have "cs ! (length rs - 1) \<in> set cs" by simp
  with assms(1) newest have filled: "pbuf p' \<noteq> NULL" by simp
  then have one: "slot_reference p' = {#pbuf p'#}" by (simp add: slot_reference_def)
  have each: "references_of (snd (snd (snd
              (map_frame K (call_cv c) (call_cgl c) p0 (call_image c) out0)))) =
            [CVPixelBufferRelease (pbuf p0), CVPixelBufferRetain (mpi_planes (call_image c) ! 3)]"
    for c p0 out0
    using map_frame_call_references[of K "call_cv c" "call_cgl c" p0 "call_image c" out0]
    by (metis prod.collapse)
  have own: "owned_after t (slot_reference p) = Some {#pbuf p'#}"
    using inv one by simp
  have gone: "owned_after (t @ destroy p') (slot_reference p) = Some {#}"
    unfolding owned_after_append own using filled by (simp add: destroy_def)
  show ?thesis using own rs newest each gone by blast
qed

text \<open>
  Claim C4 at three sample calls from the empty slot: the bi-planar buffer at address 1,
  the buffer with the unknown format at address 2 (refused with -1), and address 1 again.
  The component ends owning one reference, to address 1.
\<close>

theorem map_frames_one_reference_witness:
  "slot_reference sample_priv = {#} \<and>
   mpi_planes (call_image (sample_call 1)) ! 3 \<noteq> NULL \<and>
   mpi_planes (call_image (sample_call 2)) ! 3 \<noteq> NULL \<and>
   fst (map_frames sample_formats [sample_call 1, sample_call 2, sample_call 1]
          sample_priv sample_out_frame) = [Returned 0, Returned (- 1), Returned 0] \<and>
   owned_after (snd (snd (snd (map_frames sample_formats
                                 [sample_call 1, sample_call 2, sample_call 1]
                                 sample_priv sample_out_frame)))) {#} = Some {#1#}"
proof -
  let ?cs = "[sample_call 1, sample_call 2, sample_call 1]"
  have empty: "slot_reference sample_priv = {#}"
    by (simp add: slot_reference_def sample_priv_def)
  have buffers: "\<forall>c \<in> set ?cs. mpi_planes (call_image c) ! 3 \<noteq> NULL"
    by (simp add: sample_call_def NULL_def)
  have some: "?cs \<noteq> []" by simp
  from map_frames_one_reference[OF buffers some map_frames_collapse,
      of sample_formats sample_priv sample_out_frame]
  have "owned_after (snd (snd (snd (map_frames sample_formats ?cs sample_priv sample_out_frame))))
          (slot_reference sample_priv)
        = Some {#pbuf (fst (snd (map_frames sample_formats ?cs sample_priv sample_out_frame)))#}"
    and "pbuf (fst (snd (map_frames sample_formats ?cs sample_priv sample_out_frame)))
         = mpi_planes (call_image (?cs ! (length (fst (map_frames sample_formats ?cs
             sample_priv sample_out_frame)) - 1))) ! 3"
    by blast+
  then show ?thesis
    using empty buffers sample_run by (simp add: sample_call_def)
qed

text \<open>Construction leaves the slot empty, so the component starts owning no reference.\<close>

lemma create_slot_empty:
  "create gl_version have_context names = (r, Some p, t) \<Longrightarrow>
     r = 0 \<and> pbuf p = NULL \<and> slot_reference p = {#}"
  by (auto simp: create_def check_hwdec_def slot_reference_def split: if_splits)

end
